theory Spec2Isabelle
  imports Complex_Main "HOL-Library.Product_Lexorder"
begin

section \<open>Python values\<close>

text \<open>
  A Python \<open>str\<close> is a sequence of Unicode code points. The catalog and the messages of
  the program are Ukrainian, so a string is modelled as the list of its code points
  (\<open>ord\<close> of each character), not as a list of 8-bit characters. \<open>of_ascii\<close> embeds
  an ASCII literal.
\<close>

type_synonym pystr = "nat list"

definition of_ascii :: "string \<Rightarrow> pystr" where
  "of_ascii s = map of_char s"

text \<open>
  \<open>str.lower()\<close>, code point by code point. The model covers Basic Latin, the Latin-1
  Supplement, the basic Cyrillic block (U+0400 to U+042F) and the Ukrainian letter U+0490;
  every other code point is left as it is. The catalog below uses lower-case letters of
  these blocks, the space and the apostrophe only.
\<close>

definition lower_cp :: "nat \<Rightarrow> nat" where
  "lower_cp c =
     (if 65 \<le> c \<and> c \<le> 90 then c + 32
      else if 192 \<le> c \<and> c \<le> 222 \<and> c \<noteq> 215 then c + 32
      else if 1024 \<le> c \<and> c \<le> 1039 then c + 80
      else if 1040 \<le> c \<and> c \<le> 1071 then c + 32
      else if c = 1168 then 1169
      else c)"

definition lower :: "pystr \<Rightarrow> pystr" where
  "lower s = map lower_cp s"

section \<open>The similarity scorer: \<open>difflib.SequenceMatcher(None, a, b).ratio()\<close>\<close>

text \<open>
  \<open>similar(a, b)\<close> is \<open>SequenceMatcher(None, a, b).ratio()\<close> of the Python standard
  library. The definitions of this section follow CPython's \<open>Lib/difflib.py\<close> with
  \<open>isjunk = None\<close> and \<open>autojunk = True\<close>, the arguments \<open>similar\<close> passes.

  \<open>__chain_b\<close> builds the dictionary \<open>b2j\<close> from each element of \<open>b\<close> to the increasing
  list of the indices where it occurs, and then deletes the "popular" elements: when
  \<open>len(b) >= 200\<close>, those that occur more than \<open>len(b) // 100 + 1\<close> times. No element
  is junk. \<open>b2j b x\<close> is \<open>b2j.get(x, [])\<close>.
\<close>

fun chain_b :: "nat \<Rightarrow> pystr \<Rightarrow> nat \<Rightarrow> nat list" where
  "chain_b i [] x = []"
| "chain_b i (elt # b) x = (if elt = x then i # chain_b (Suc i) b x else chain_b (Suc i) b x)"

definition b2j :: "pystr \<Rightarrow> nat \<Rightarrow> nat list" where
  "b2j b x =
     (let idxs = chain_b 0 b x; n = length b
      in if 200 \<le> n \<and> n div 100 + 1 < length idxs then [] else idxs)"

text \<open>
  \<open>find_longest_match(alo, ahi, blo, bhi)\<close>. A match is the triple
  \<open>(besti, bestj, bestsize)\<close>. The dictionary \<open>j2len\<close> is a partial map;
  \<open>j2lenget j2len j\<close> is \<open>j2len.get(j - 1, 0)\<close>, where the key \<open>-1\<close> is never present.
  The indices are naturals: \<open>i - k + 1\<close> is written \<open>Suc i - k\<close>, which is the same
  number because \<open>k \<le> i + 1\<close> there (lemma \<open>find_longest_match_ok\<close>).
\<close>

type_synonym match = "nat \<times> nat \<times> nat"

definition j2lenget :: "(nat \<rightharpoonup> nat) \<Rightarrow> nat \<Rightarrow> nat" where
  "j2lenget j2len j = (if j = 0 then 0 else case j2len (j - 1) of None \<Rightarrow> 0 | Some v \<Rightarrow> v)"

text \<open>
  The loop \<open>for j in b2j.get(a[i], nothing)\<close>: \<open>continue\<close> below \<open>blo\<close>, \<open>break\<close> from
  \<open>bhi\<close> on, and otherwise \<open>k = newj2len[j] = j2lenget(j-1, 0) + 1\<close> with the strict test
  \<open>k > bestsize\<close>.
\<close>

fun inner_loop ::
  "nat \<Rightarrow> nat \<Rightarrow> nat \<Rightarrow> (nat \<rightharpoonup> nat) \<Rightarrow> nat list \<Rightarrow> (nat \<rightharpoonup> nat) \<times> match \<Rightarrow> (nat \<rightharpoonup> nat) \<times> match" where
  "inner_loop blo bhi i j2len [] st = st"
| "inner_loop blo bhi i j2len (j # js) (newj2len, besti, bestj, bestsize) =
     (if j < blo then inner_loop blo bhi i j2len js (newj2len, besti, bestj, bestsize)
      else if bhi \<le> j then (newj2len, besti, bestj, bestsize)
      else let k = j2lenget j2len j + 1
           in inner_loop blo bhi i j2len js
                (newj2len(j \<mapsto> k),
                 if bestsize < k then (Suc i - k, Suc j - k, k) else (besti, bestj, bestsize)))"

text \<open>The loop \<open>for i in range(alo, ahi)\<close>, which ends with \<open>j2len = newj2len\<close>.\<close>

function outer_loop ::
  "pystr \<Rightarrow> pystr \<Rightarrow> nat \<Rightarrow> nat \<Rightarrow> nat \<Rightarrow> nat \<Rightarrow> (nat \<rightharpoonup> nat) \<times> match \<Rightarrow> (nat \<rightharpoonup> nat) \<times> match" where
  "outer_loop a b i ahi blo bhi (j2len, best) =
     (if i < ahi
      then outer_loop a b (Suc i) ahi blo bhi
             (inner_loop blo bhi i j2len (b2j b (a ! i)) (Map.empty, best))
      else (j2len, best))"
  by pat_completeness auto
termination
  by (relation "measure (\<lambda>(a, b, i, ahi, blo, bhi, st). ahi - i)") auto

text \<open>
  The two \<open>while\<close> loops that extend the best match by elements that are not junk, to
  the left and then to the right. The two loops after them extend by junk elements only;
  with \<open>isjunk = None\<close> the set \<open>bjunk\<close> is empty and they never run.
\<close>

function extend_left :: "pystr \<Rightarrow> pystr \<Rightarrow> nat \<Rightarrow> nat \<Rightarrow> match \<Rightarrow> match" where
  "extend_left a b alo blo (besti, bestj, bestsize) =
     (if alo < besti \<and> blo < bestj \<and> a ! (besti - 1) = b ! (bestj - 1)
      then extend_left a b alo blo (besti - 1, bestj - 1, bestsize + 1)
      else (besti, bestj, bestsize))"
  by pat_completeness auto
termination
  by (relation "measure (\<lambda>(a, b, alo, blo, besti, bestj, bestsize). besti)") auto

function extend_right :: "pystr \<Rightarrow> pystr \<Rightarrow> nat \<Rightarrow> nat \<Rightarrow> match \<Rightarrow> match" where
  "extend_right a b ahi bhi (besti, bestj, bestsize) =
     (if besti + bestsize < ahi \<and> bestj + bestsize < bhi
         \<and> a ! (besti + bestsize) = b ! (bestj + bestsize)
      then extend_right a b ahi bhi (besti, bestj, bestsize + 1)
      else (besti, bestj, bestsize))"
  by pat_completeness auto
termination
  by (relation "measure (\<lambda>(a, b, ahi, bhi, besti, bestj, bestsize). ahi - (besti + bestsize))") auto

declare outer_loop.simps [simp del] extend_left.simps [simp del] extend_right.simps [simp del]

definition find_longest_match :: "pystr \<Rightarrow> pystr \<Rightarrow> nat \<Rightarrow> nat \<Rightarrow> nat \<Rightarrow> nat \<Rightarrow> match" where
  "find_longest_match a b alo ahi blo bhi =
     extend_right a b ahi bhi
       (extend_left a b alo blo
          (snd (outer_loop a b alo ahi blo bhi (Map.empty, alo, blo, 0))))"

subsection \<open>The match stays inside the window\<close>

text \<open>
  The queue loop of \<open>get_matching_blocks\<close> terminates because every match found lies
  inside the window it was searched in. \<open>row_ok\<close> bounds the entries of \<open>j2len\<close> after
  \<open>n\<close> rows; \<open>best_ok\<close> says that the best match is \<open>(alo, blo, 0)\<close> or a non-empty
  block inside \<open>a[alo:i]\<close> and \<open>b[blo:bhi]\<close>.
\<close>

definition row_ok :: "nat \<Rightarrow> nat \<Rightarrow> nat \<Rightarrow> (nat \<rightharpoonup> nat) \<Rightarrow> bool" where
  "row_ok blo bhi n j2len \<longleftrightarrow>
     (\<forall>j v. j2len j = Some v \<longrightarrow> blo \<le> j \<and> j < bhi \<and> 0 < v \<and> v \<le> Suc j - blo \<and> v \<le> n)"

definition best_ok :: "nat \<Rightarrow> nat \<Rightarrow> nat \<Rightarrow> nat \<Rightarrow> match \<Rightarrow> bool" where
  "best_ok alo blo bhi i best \<longleftrightarrow>
     (case best of (besti, bestj, bestsize) \<Rightarrow>
        alo \<le> besti \<and> blo \<le> bestj \<and>
        (if bestsize = 0 then besti = alo \<and> bestj = blo
         else besti + bestsize \<le> i \<and> bestj + bestsize \<le> bhi))"

lemma row_ok_empty: "row_ok blo bhi n Map.empty"
  by (simp add: row_ok_def)

lemma j2lenget_le:
  assumes "row_ok blo bhi n j2len" "blo \<le> j"
  shows "j2lenget j2len j \<le> j - blo \<and> j2lenget j2len j \<le> n"
proof (cases "j = 0")
  case True
  then show ?thesis by (simp add: j2lenget_def)
next
  case False
  show ?thesis
  proof (cases "j2len (j - 1)")
    case None
    then show ?thesis using False by (simp add: j2lenget_def)
  next
    case (Some v)
    with assms(1) have "blo \<le> j - 1" "v \<le> Suc (j - 1) - blo" "v \<le> n"
      by (auto simp: row_ok_def)
    with Some False show ?thesis by (simp add: j2lenget_def)
  qed
qed

lemma inner_loop_ok:
  assumes "row_ok blo bhi (i - alo) j2len" "alo \<le> i"
    and "Suc i \<le> m"
  shows "row_ok blo bhi (Suc i - alo) newj2len \<Longrightarrow> best_ok alo blo bhi m best
     \<Longrightarrow> inner_loop blo bhi i j2len js (newj2len, best) = (newj2len', best')
     \<Longrightarrow> row_ok blo bhi (Suc i - alo) newj2len' \<and> best_ok alo blo bhi m best'"
proof (induction js arbitrary: newj2len best)
  case Nil
  then show ?case by simp
next
  case (Cons j js)
  obtain besti bestj bestsize where best: "best = (besti, bestj, bestsize)"
    by (cases best) auto
  show ?case
  proof (cases "j < blo")
    case True
    with Cons best show ?thesis by simp
  next
    case lo: False
    show ?thesis
    proof (cases "bhi \<le> j")
      case True
      with Cons lo best show ?thesis by simp
    next
      case hi: False
      define k where "k = j2lenget j2len j + 1"
      have kb: "k \<le> Suc j - blo" "k \<le> Suc i - alo" "0 < k"
        using j2lenget_le[OF assms(1), of j] lo assms(2) by (auto simp: k_def)
      have r: "row_ok blo bhi (Suc i - alo) (newj2len(j \<mapsto> k))"
        using Cons.prems(1) kb lo hi by (auto simp: row_ok_def)
      have b: "best_ok alo blo bhi m
                 (if bestsize < k then (Suc i - k, Suc j - k, k) else (besti, bestj, bestsize))"
        using Cons.prems(2) kb lo hi assms(2,3) by (auto simp: best_ok_def best)
      have "inner_loop blo bhi i j2len js
              (newj2len(j \<mapsto> k), if bestsize < k then (Suc i - k, Suc j - k, k) else (besti, bestj, bestsize))
            = (newj2len', best')"
        using Cons.prems(3) lo hi unfolding best k_def by (simp add: Let_def split: if_splits)
      from Cons.IH[OF r b this] show ?thesis .
    qed
  qed
qed

lemma outer_loop_ok:
  "row_ok blo bhi (i - alo) j2len \<Longrightarrow> alo \<le> i \<Longrightarrow> best_ok alo blo bhi ahi best
   \<Longrightarrow> outer_loop a b i ahi blo bhi (j2len, best) = (j2len', best')
   \<Longrightarrow> best_ok alo blo bhi ahi best'"
proof (induction a b i ahi blo bhi "(j2len, best)" arbitrary: j2len best rule: outer_loop.induct)
  case (1 a b i ahi blo bhi j2len best)
  show ?case
  proof (cases "i < ahi")
    case False
    with "1.prems" show ?thesis by (simp add: outer_loop.simps)
  next
    case True
    obtain n2 b2 where il: "inner_loop blo bhi i j2len (b2j b (a ! i)) (Map.empty, best) = (n2, b2)"
      by (cases "inner_loop blo bhi i j2len (b2j b (a ! i)) (Map.empty, best)") auto
    from True have m: "Suc i \<le> ahi" by simp
    have ok: "row_ok blo bhi (Suc i - alo) n2" "best_ok alo blo bhi ahi b2"
      using inner_loop_ok[OF "1.prems"(1,2) m row_ok_empty "1.prems"(3) il] by auto
    have run: "outer_loop a b (Suc i) ahi blo bhi (n2, b2) = (j2len', best')"
      using "1.prems"(4) True il by (simp add: outer_loop.simps[of a b i])
    have "alo \<le> Suc i" using "1.prems"(2) by simp
    from "1.hyps"[OF True il ok(1) this ok(2) run] show ?thesis .
  qed
qed

lemma extend_left_ok:
  "best_ok alo blo bhi ahi best \<Longrightarrow> best_ok alo blo bhi ahi (extend_left a b alo blo best)"
proof (induction a b alo blo best rule: extend_left.induct)
  case (1 a b alo blo besti bestj bestsize)
  show ?case
  proof (cases "alo < besti \<and> blo < bestj \<and> a ! (besti - 1) = b ! (bestj - 1)")
    case True
    have "best_ok alo blo bhi ahi (besti - 1, bestj - 1, bestsize + 1)"
      using "1.prems" True by (auto simp: best_ok_def split: if_splits)
    from "1.IH"[OF True this] True show ?thesis
      by (subst extend_left.simps) auto
  next
    case False
    with "1.prems" show ?thesis by (subst extend_left.simps) auto
  qed
qed

lemma extend_right_ok:
  "best_ok alo blo bhi ahi best \<Longrightarrow> best_ok alo blo bhi ahi (extend_right a b ahi bhi best)"
proof (induction a b ahi bhi best rule: extend_right.induct)
  case (1 a b ahi bhi besti bestj bestsize)
  show ?case
  proof (cases "besti + bestsize < ahi \<and> bestj + bestsize < bhi
         \<and> a ! (besti + bestsize) = b ! (bestj + bestsize)")
    case True
    have "best_ok alo blo bhi ahi (besti, bestj, bestsize + 1)"
      using "1.prems" True by (auto simp: best_ok_def split: if_splits)
    from "1.IH"[OF True this] True show ?thesis
      by (subst extend_right.simps) auto
  next
    case False
    with "1.prems" show ?thesis by (subst extend_right.simps) auto
  qed
qed

lemma find_longest_match_ok:
  "best_ok alo blo bhi ahi (find_longest_match a b alo ahi blo bhi)"
proof -
  obtain j2len best where ol: "outer_loop a b alo ahi blo bhi (Map.empty, alo, blo, 0) = (j2len, best)"
    by (cases "outer_loop a b alo ahi blo bhi (Map.empty, alo, blo, 0)") auto
  have "best_ok alo blo bhi ahi (alo, blo, 0)" by (simp add: best_ok_def)
  from outer_loop_ok[OF _ _ this ol] have "best_ok alo blo bhi ahi best"
    by (simp add: row_ok_empty)
  then show ?thesis
    by (simp add: find_longest_match_def ol extend_left_ok extend_right_ok)
qed

lemma find_longest_match_bounds:
  assumes "find_longest_match a b alo ahi blo bhi = (i, j, k)"
  shows "alo \<le> i" "blo \<le> j" "0 < k \<Longrightarrow> i + k \<le> ahi" "0 < k \<Longrightarrow> j + k \<le> bhi"
  using find_longest_match_ok[of alo blo bhi ahi a b] assms
  by (auto simp: best_ok_def split: if_splits)

lemma find_longest_match_a_range:
  "(i, j, k) = find_longest_match a b alo ahi blo bhi \<Longrightarrow> k \<noteq> 0 \<Longrightarrow> alo \<le> i \<and> i + k \<le> ahi"
  using find_longest_match_bounds[of a b alo ahi blo bhi i j k] by simp

subsection \<open>Matching blocks and the ratio\<close>

text \<open>
  The \<open>while queue\<close> loop of \<open>get_matching_blocks\<close>. The Python list \<open>queue\<close> is used
  as a stack (\<open>pop()\<close> takes the last element, \<open>append\<close> adds at the end); here the head
  of the list is the top of the stack, so the window pushed last, the one to the right of
  the match, is in front.
\<close>

function blocks_loop ::
  "pystr \<Rightarrow> pystr \<Rightarrow> (nat \<times> nat \<times> nat \<times> nat) list \<Rightarrow> match list \<Rightarrow> match list" where
  "blocks_loop a b [] matching_blocks = matching_blocks"
| "blocks_loop a b ((alo, ahi, blo, bhi) # queue) matching_blocks =
     (case find_longest_match a b alo ahi blo bhi of (i, j, k) \<Rightarrow>
        if k \<noteq> 0
        then blocks_loop a b
               ((if i + k < ahi \<and> j + k < bhi then [(i + k, ahi, j + k, bhi)] else [])
                @ (if alo < i \<and> blo < j then [(alo, i, blo, j)] else [])
                @ queue)
               (matching_blocks @ [(i, j, k)])
        else blocks_loop a b queue matching_blocks)"
  by pat_completeness auto
termination
  apply (relation "measure (\<lambda>(a, b, queue, mb).
            sum_list (map (\<lambda>(alo, ahi, blo, bhi). 2 * (ahi - alo) + 1) queue))")
    apply simp
   apply (auto dest!: find_longest_match_a_range)
  done

declare blocks_loop.simps [simp del]

text \<open>The loop that merges adjacent blocks, started with \<open>i1 = j1 = k1 = 0\<close>.\<close>

fun collapse :: "match list \<Rightarrow> match \<Rightarrow> match list \<Rightarrow> match list" where
  "collapse [] (i1, j1, k1) non_adjacent =
     (if k1 \<noteq> 0 then non_adjacent @ [(i1, j1, k1)] else non_adjacent)"
| "collapse ((i2, j2, k2) # blocks) (i1, j1, k1) non_adjacent =
     (if i1 + k1 = i2 \<and> j1 + k1 = j2
      then collapse blocks (i1, j1, k1 + k2) non_adjacent
      else collapse blocks (i2, j2, k2)
             (if k1 \<noteq> 0 then non_adjacent @ [(i1, j1, k1)] else non_adjacent))"

text \<open>
  \<open>matching_blocks.sort()\<close> orders the triples lexicographically, which is the order of
  \<open>sort\<close> on products here. The last block is the sentinel \<open>(la, lb, 0)\<close>.
\<close>

definition get_matching_blocks :: "pystr \<Rightarrow> pystr \<Rightarrow> match list" where
  "get_matching_blocks a b =
     (let la = length a; lb = length b;
          matching_blocks = sort (blocks_loop a b [(0, la, 0, lb)] [])
      in collapse matching_blocks (0, 0, 0) [] @ [(la, lb, 0)])"

text \<open>
  \<open>_calculate_ratio\<close> returns the double \<open>2.0 * matches / length\<close>, and \<open>1.0\<close> for
  \<open>length = 0\<close>. The model keeps the exact quotient as a rational. What the program does
  with a score is to compare it with \<open>0.3\<close> and with another score. The division of two
  integers below \<open>2^53\<close> is correctly rounded and rounding is monotone, and two distinct
  quotients with denominators \<open>len(a) + len(b)\<close> differ by far more than one unit in the
  last place for any input a console line can hold; so the comparisons of the doubles
  and of the exact quotients agree.
\<close>

definition calculate_ratio :: "nat \<Rightarrow> nat \<Rightarrow> rat" where
  "calculate_ratio matches len = (if len \<noteq> 0 then 2 * of_nat matches / of_nat len else 1)"

definition ratio :: "pystr \<Rightarrow> pystr \<Rightarrow> rat" where
  "ratio a b =
     calculate_ratio (sum_list (map (\<lambda>(i, j, k). k) (get_matching_blocks a b)))
       (length a + length b)"

text \<open>\<open>def similar(a, b): return SequenceMatcher(None, a, b).ratio()\<close>\<close>

definition similar :: "pystr \<Rightarrow> pystr \<Rightarrow> rat" where
  "similar a b = ratio a b"

subsection \<open>Facts about the ratio\<close>

text \<open>
  Sorting the blocks and merging adjacent ones keep the sum of their sizes, so the
  ratio is computed from \<open>matches a b\<close>, the sum of the sizes the queue loop collects.
\<close>

definition sizes :: "match list \<Rightarrow> nat" where
  "sizes blocks = sum_list (map (\<lambda>(i, j, k). k) blocks)"

lemma sizes_simps [simp]:
  "sizes [] = 0" "sizes ((i, j, k) # blocks) = k + sizes blocks"
  "sizes (xs @ ys) = sizes xs + sizes ys"
  by (simp_all add: sizes_def)

lemma sizes_collapse:
  "sizes (collapse blocks (i1, j1, k1) non_adjacent) = sizes non_adjacent + k1 + sizes blocks"
  by (induction blocks "(i1, j1, k1)" non_adjacent arbitrary: i1 j1 k1 rule: collapse.induct) auto

lemma sizes_insort: "sizes (insort x blocks) = sizes [x] + sizes blocks"
  by (induction blocks) (auto simp: sizes_def)

lemma sizes_sort: "sizes (sort blocks) = sizes blocks"
proof (induction blocks)
  case Nil
  show ?case by simp
next
  case (Cons x blocks)
  have "sizes (sort (x # blocks)) = sizes [x] + sizes (sort blocks)"
    by (simp add: sizes_insort)
  also have "\<dots> = sizes (x # blocks)"
    using Cons by (simp add: sizes_def)
  finally show ?case .
qed

definition matches :: "pystr \<Rightarrow> pystr \<Rightarrow> nat" where
  "matches a b = sizes (blocks_loop a b [(0, length a, 0, length b)] [])"

lemma ratio_matches: "ratio a b = calculate_ratio (matches a b) (length a + length b)"
  by (simp add: ratio_def get_matching_blocks_def Let_def sizes_def[symmetric] sizes_collapse
      sizes_sort matches_def)

definition span_a :: "(nat \<times> nat \<times> nat \<times> nat) list \<Rightarrow> nat" where
  "span_a queue = sum_list (map (\<lambda>(alo, ahi, blo, bhi). ahi - alo) queue)"

definition span_b :: "(nat \<times> nat \<times> nat \<times> nat) list \<Rightarrow> nat" where
  "span_b queue = sum_list (map (\<lambda>(alo, ahi, blo, bhi). bhi - blo) queue)"

lemma blocks_loop_sizes:
  "sizes (blocks_loop a b queue mb) \<le> sizes mb + span_a queue \<and>
   sizes (blocks_loop a b queue mb) \<le> sizes mb + span_b queue"
proof (induction a b queue mb rule: blocks_loop.induct)
  case (1 a b mb)
  show ?case by (simp add: blocks_loop.simps)
next
  case (2 a b alo ahi blo bhi queue mb)
  obtain i j k where flm: "find_longest_match a b alo ahi blo bhi = (i, j, k)"
    by (cases "find_longest_match a b alo ahi blo bhi") auto
  show ?case
  proof (cases "k = 0")
    case True
    with 2(2)[OF flm[symmetric] refl] flm show ?thesis
      by (simp add: blocks_loop.simps span_a_def span_b_def)
  next
    case False
    from find_longest_match_bounds[OF flm] False
    have b: "alo \<le> i" "i + k \<le> ahi" "blo \<le> j" "j + k \<le> bhi" by auto
    define q where "q = (if i + k < ahi \<and> j + k < bhi then [(i + k, ahi, j + k, bhi)] else [])
                @ (if alo < i \<and> blo < j then [(alo, i, blo, j)] else []) @ queue"
    have sa: "k + span_a q \<le> span_a ((alo, ahi, blo, bhi) # queue)"
      using b by (auto simp: q_def span_a_def)
    have sb: "k + span_b q \<le> span_b ((alo, ahi, blo, bhi) # queue)"
      using b by (auto simp: q_def span_b_def)
    have run: "blocks_loop a b ((alo, ahi, blo, bhi) # queue) mb = blocks_loop a b q (mb @ [(i, j, k)])"
      using flm False by (simp add: blocks_loop.simps q_def)
    from 2(1)[OF flm[symmetric] refl False] sa sb show ?thesis
      unfolding run q_def[symmetric] by simp
  qed
qed

lemma matches_le: "matches a b \<le> length a" "matches a b \<le> length b"
  using blocks_loop_sizes[of a b "[(0, length a, 0, length b)]" "[]"]
  by (simp_all add: matches_def span_a_def span_b_def)

lemma similar_bounds: "0 \<le> similar a b \<and> similar a b \<le> 1"
proof (cases "length a + length b = 0")
  case True
  then show ?thesis by (simp add: similar_def ratio_matches calculate_ratio_def)
next
  case False
  have "2 * matches a b \<le> length a + length b"
    using matches_le[of a b] by simp
  then have "2 * (of_nat (matches a b) :: rat) \<le> of_nat (length a + length b)"
    by (metis of_nat_le_iff of_nat_mult of_nat_numeral)
  moreover have "0 < (of_nat (length a + length b) :: rat)"
    using False by (simp only: of_nat_0_less_iff)
  ultimately have "2 * (of_nat (matches a b) :: rat) / of_nat (length a + length b) \<le> 1"
    and "0 \<le> 2 * (of_nat (matches a b) :: rat) / of_nat (length a + length b)"
    by (simp_all only: divide_le_eq_1_pos zero_le_divide_iff) simp_all
  then show ?thesis
    using False by (simp only: similar_def ratio_matches calculate_ratio_def if_True simp_thms)
qed

subsection \<open>A string against itself\<close>

text \<open>
  With \<open>a = b\<close> the first call of \<open>find_longest_match\<close> returns the whole string,
  also when some elements are popular and missing from \<open>b2j\<close>: the best match of the
  main loop lies on the diagonal (\<open>besti = bestj\<close>), and the two extension loops, which
  do not consult \<open>b2j\<close>, stretch it to both ends. \<open>nprun x i\<close> is the length of the run
  of elements that are not popular ending at index \<open>i\<close>.
\<close>

lemma chain_b_set: "set (chain_b i b x) = {j. i \<le> j \<and> j < i + length b \<and> b ! (j - i) = x}"
proof (induction b arbitrary: i)
  case Nil
  show ?case by simp
next
  case (Cons e b)
  have "\<And>j. i \<le> j \<Longrightarrow> (e # b) ! (j - i) = (if j = i then e else b ! (j - Suc i))"
    by (auto simp: nth_Cons' Suc_diff_le)
  then show ?case using Cons[of "Suc i"]
    by (auto simp: nth_Cons' split: if_splits)
qed

lemma chain_b_sorted: "sorted_wrt (<) (chain_b i b x)"
proof (induction b arbitrary: i)
  case Nil
  show ?case by simp
next
  case (Cons e b)
  then show ?case by (auto simp: chain_b_set)
qed

definition popular :: "pystr \<Rightarrow> nat \<Rightarrow> bool" where
  "popular b x \<longleftrightarrow> 200 \<le> length b \<and> length b div 100 + 1 < length (chain_b 0 b x)"

lemma b2j_popular: "b2j b x = (if popular b x then [] else chain_b 0 b x)"
  by (simp add: b2j_def popular_def Let_def)

fun nprun :: "pystr \<Rightarrow> nat \<Rightarrow> nat" where
  "nprun x 0 = (if popular x (x ! 0) then 0 else 1)"
| "nprun x (Suc i) = (if popular x (x ! Suc i) then 0 else Suc (nprun x i))"

lemma nprun_np: "\<not> popular x (x ! j) \<Longrightarrow> nprun x j = (if j = 0 then 1 else Suc (nprun x (j - 1)))"
  by (cases j) auto

lemma nprun_pop: "popular x (x ! j) \<Longrightarrow> nprun x j = 0"
  by (cases j) auto

definition row_diag :: "pystr \<Rightarrow> nat \<Rightarrow> (nat \<rightharpoonup> nat) \<Rightarrow> bool" where
  "row_diag x i j2len \<longleftrightarrow>
     (\<forall>j v. j2len j = Some v \<longrightarrow> v \<le> nprun x j \<and> 0 < i \<and> v \<le> nprun x (i - 1)) \<and>
     (0 < i \<longrightarrow> j2len (i - 1) = (if popular x (x ! (i - 1)) then None else Some (nprun x (i - 1))))"

definition inner_diag :: "pystr \<Rightarrow> nat \<Rightarrow> nat list \<Rightarrow> (nat \<rightharpoonup> nat) \<times> match \<Rightarrow> bool" where
  "inner_diag x i js st \<longleftrightarrow>
     (case st of (newj2len, besti, bestj, bestsize) \<Rightarrow>
        besti = bestj \<and> (\<forall>i' < i. nprun x i' \<le> bestsize) \<and>
        (i \<notin> set js \<longrightarrow> nprun x i \<le> bestsize \<and> newj2len i = Some (nprun x i)) \<and>
        (\<forall>j v. newj2len j = Some v \<longrightarrow> v \<le> nprun x j \<and> v \<le> nprun x i))"

lemma j2lenget_diag:
  assumes "row_diag x i j2len" "\<not> popular x (x ! j)"
  shows "Suc (j2lenget j2len j) \<le> nprun x j" "\<not> popular x (x ! i) \<Longrightarrow> Suc (j2lenget j2len j) \<le> nprun x i"
    "\<not> popular x (x ! i) \<Longrightarrow> Suc (j2lenget j2len i) = nprun x i"
proof -
  show "Suc (j2lenget j2len j) \<le> nprun x j"
    using assms by (cases "j2len (j - 1)") (auto simp: j2lenget_def row_diag_def nprun_np)
  show "Suc (j2lenget j2len j) \<le> nprun x i" if "\<not> popular x (x ! i)"
    using assms that by (cases "j2len (j - 1)") (auto simp: j2lenget_def row_diag_def nprun_np)
  show "Suc (j2lenget j2len i) = nprun x i" if "\<not> popular x (x ! i)"
    using assms(1) that by (auto simp: j2lenget_def row_diag_def nprun_np nprun_pop)
qed

lemma inner_loop_diag:
  assumes "row_diag x i j2len" "\<not> popular x (x ! i)"
  shows "sorted_wrt (<) js \<Longrightarrow> \<forall>j \<in> set js. j < n \<and> x ! j = x ! i
     \<Longrightarrow> inner_diag x i js (newj2len, best)
     \<Longrightarrow> inner_loop 0 n i j2len js (newj2len, best) = (newj2len', best')
     \<Longrightarrow> inner_diag x i [] (newj2len', best')"
proof (induction js arbitrary: newj2len best)
  case Nil
  then show ?case by simp
next
  case (Cons j js)
  obtain besti bestj bestsize where best: "best = (besti, bestj, bestsize)"
    by (cases best) auto
  from Cons.prems(2) have j: "j < n" "x ! j = x ! i" by auto
  with assms(2) have npj: "\<not> popular x (x ! j)" by simp
  define k where "k = j2lenget j2len j + 1"
  define best2 where "best2 = (if bestsize < k then (Suc i - k, Suc j - k, k) else (besti, bestj, bestsize))"
  have run: "inner_loop 0 n i j2len js (newj2len(j \<mapsto> k), best2) = (newj2len', best')"
    using Cons.prems(4) j unfolding best k_def best2_def by (simp add: Let_def split: if_splits)
  have kj: "k \<le> nprun x j" and ki: "k \<le> nprun x i"
    using j2lenget_diag(1,2)[OF assms(1) npj] assms(2) by (auto simp: k_def)
  have inv: "besti = bestj" "\<forall>i' < i. nprun x i' \<le> bestsize"
    "i \<notin> set (j # js) \<longrightarrow> nprun x i \<le> bestsize \<and> newj2len i = Some (nprun x i)"
    "\<forall>j v. newj2len j = Some v \<longrightarrow> v \<le> nprun x j \<and> v \<le> nprun x i"
    using Cons.prems(3) by (auto simp: inner_diag_def best)
  have "inner_diag x i js (newj2len(j \<mapsto> k), best2)"
  proof (cases "j = i")
    case True
    have "k = nprun x i" using j2lenget_diag(3)[OF assms(1) npj] assms(2) True by (simp add: k_def)
    then show ?thesis using inv True kj
      by (auto simp: inner_diag_def best2_def)
  next
    case False
    have "k \<le> bestsize"
    proof (cases "j < i")
      case True
      with inv(2) kj show ?thesis by force
    next
      case ge: False
      with False have "i < j" by simp
      with Cons.prems(1) have "i \<notin> set (j # js)" by auto
      with inv(3) ki show ?thesis by simp
    qed
    then have "best2 = (besti, bestj, bestsize)" by (simp add: best2_def)
    then show ?thesis using inv False kj ki
      by (auto simp: inner_diag_def)
  qed
  from Cons.IH[OF _ _ this run] Cons.prems(1,2) show ?case by simp
qed

definition best_diag :: "pystr \<Rightarrow> nat \<Rightarrow> match \<Rightarrow> bool" where
  "best_diag x i best \<longleftrightarrow>
     (case best of (besti, bestj, bestsize) \<Rightarrow> besti = bestj \<and> (\<forall>i' < i. nprun x i' \<le> bestsize))"

lemma outer_loop_diag:
  "b = a \<Longrightarrow> ahi = length a \<Longrightarrow> blo = 0 \<Longrightarrow> bhi = length a
   \<Longrightarrow> row_diag a i j2len \<Longrightarrow> best_diag a i best
   \<Longrightarrow> outer_loop a b i ahi blo bhi (j2len, best) = (j2len', best')
   \<Longrightarrow> fst best' = fst (snd best')"
proof (induction a b i ahi blo bhi "(j2len, best)" arbitrary: j2len best rule: outer_loop.induct)
  case (1 a b i ahi blo bhi j2len best)
  note eqs = "1.prems"(1-4)
  show ?case
  proof (cases "i < length a")
    case False
    with "1.prems" show ?thesis by (auto simp: outer_loop.simps best_diag_def)
  next
    case True
    then have lt: "i < ahi" using eqs by simp
    obtain n2 b2 where il: "inner_loop blo bhi i j2len (b2j b (a ! i)) (Map.empty, best) = (n2, b2)"
      by (cases "inner_loop blo bhi i j2len (b2j b (a ! i)) (Map.empty, best)") auto
    have run: "outer_loop a b (Suc i) ahi blo bhi (n2, b2) = (j2len', best')"
      using "1.prems"(7) lt il by (simp add: outer_loop.simps[of a b i])
    have il': "inner_loop 0 (length a) i j2len (b2j a (a ! i)) (Map.empty, best) = (n2, b2)"
      using il eqs by simp
    have "row_diag a (Suc i) n2 \<and> best_diag a (Suc i) b2"
    proof (cases "popular a (a ! i)")
      case pop: True
      then have "n2 = Map.empty" "b2 = best" using il' by (simp_all add: b2j_popular)
      then show ?thesis using "1.prems"(6) pop
        by (auto simp: row_diag_def best_diag_def nprun_pop less_Suc_eq)
    next
      case np: False
      have js: "sorted_wrt (<) (chain_b 0 a (a ! i))"
        "\<forall>j \<in> set (chain_b 0 a (a ! i)). j < length a \<and> a ! j = a ! i"
        "i \<in> set (chain_b 0 a (a ! i))"
        using True by (auto simp: chain_b_sorted chain_b_set)
      have init: "inner_diag a i (chain_b 0 a (a ! i)) (Map.empty, best)"
        using "1.prems"(6) js(3) by (auto simp: inner_diag_def best_diag_def)
      have "inner_diag a i [] (n2, b2)"
        using inner_loop_diag[OF "1.prems"(5) np js(1,2) init] il' np by (simp add: b2j_popular)
      then show ?thesis using np
        by (auto simp: inner_diag_def row_diag_def best_diag_def less_Suc_eq)
    qed
    with "1.hyps"[OF lt il eqs _ _ run] show ?thesis by simp
  qed
qed

lemma extend_left_diag: "extend_left x x 0 0 (d, d, s) = (0, 0, s + d)"
proof (induction d arbitrary: s)
  case 0
  show ?case by (simp add: extend_left.simps)
next
  case (Suc d)
  show ?case by (subst extend_left.simps) (simp add: Suc)
qed

lemma extend_right_diag: "s \<le> n \<Longrightarrow> extend_right x x n n (0, 0, s) = (0, 0, n)"
proof (induction "n - s" arbitrary: s)
  case 0
  then show ?case by (simp add: extend_right.simps)
next
  case (Suc m)
  then have "extend_right x x n n (0, 0, Suc s) = (0, 0, n)" by simp
  moreover have "s < n" using Suc.hyps(2) by simp
  ultimately show ?case by (subst extend_right.simps) simp
qed

lemma find_longest_match_self:
  "find_longest_match x x 0 (length x) 0 (length x) = (0, 0, length x)"
proof -
  obtain j2len d e s where ol:
    "outer_loop x x 0 (length x) 0 (length x) (Map.empty, 0, 0, 0) = (j2len, d, e, s)"
    by (cases "outer_loop x x 0 (length x) 0 (length x) (Map.empty, 0, 0, 0)") auto
  have "row_diag x 0 Map.empty" "best_diag x 0 (0, 0, 0)"
    by (simp_all add: row_diag_def best_diag_def)
  from outer_loop_diag[OF refl refl refl refl this ol] have de: "e = d" by simp
  have "best_ok 0 0 (length x) (length x) (0, 0, 0)" by (simp add: best_ok_def)
  from outer_loop_ok[OF _ _ this ol] have "d + s \<le> length x"
    by (auto simp: row_ok_empty best_ok_def de split: if_splits)
  then show ?thesis
    by (simp add: find_longest_match_def ol de extend_left_diag extend_right_diag)
qed

lemma matches_self: "matches x x = length x"
proof (cases "x = []")
  case True
  then show ?thesis
    by (simp add: matches_def blocks_loop.simps find_longest_match_self[of "[]", simplified])
next
  case False
  then show ?thesis
    by (simp add: matches_def blocks_loop.simps find_longest_match_self)
qed

lemma similar_self: "similar x x = 1"
  by (simp add: similar_def ratio_matches matches_self calculate_ratio_def)
section \<open>The intent catalog and the resolver \<open>suggest_command\<close>\<close>

text \<open>
  The dictionary \<open>keywords\<close> of \<open>suggest_command\<close>: twelve canonical commands, each with
  its list of trigger phrases, in the order of the dictionary literal (a Python \<open>dict\<close>
  iterates in insertion order). Strings are given by their code points; the name of each
  constant is the transliteration of the Ukrainian command. \<open>cmd_vyity\<close> is the exit
  command and \<open>cmd_vidmina\<close> the cancel command. The dictionary is named
  \<open>keywords_dict\<close> here, and the list of phrases of each command has a name of its own.
\<close>

definition cmd_dodaty_kontakt :: pystr where
  \<comment> \<open>dodaty kontakt\<close>
  "cmd_dodaty_kontakt = [1076, 1086, 1076, 1072, 1090, 1080, 32, 1082, 1086, 1085, 1090, 1072, 1082, 1090]"

definition cmd_znaity_kontakt :: pystr where
  \<comment> \<open>znaity kontakt\<close>
  "cmd_znaity_kontakt = [1079, 1085, 1072, 1081, 1090, 1080, 32, 1082, 1086, 1085, 1090, 1072, 1082, 1090]"

definition cmd_vydalyty_kontakt :: pystr where
  \<comment> \<open>vydalyty kontakt\<close>
  "cmd_vydalyty_kontakt = [1074, 1080, 1076, 1072, 1083, 1080, 1090, 1080, 32, 1082, 1086, 1085, 1090, 1072, 1082, 1090]"

definition cmd_redahuvaty_kontakt :: pystr where
  \<comment> \<open>redahuvaty kontakt\<close>
  "cmd_redahuvaty_kontakt = [1088, 1077, 1076, 1072, 1075, 1091, 1074, 1072, 1090, 1080, 32, 1082, 1086, 1085, 1090, 1072, 1082, 1090]"

definition cmd_redahuvaty_notatku :: pystr where
  \<comment> \<open>redahuvaty notatku\<close>
  "cmd_redahuvaty_notatku = [1088, 1077, 1076, 1072, 1075, 1091, 1074, 1072, 1090, 1080, 32, 1085, 1086, 1090, 1072, 1090, 1082, 1091]"

definition cmd_dni_narodzhennya :: pystr where
  \<comment> \<open>dni narodzhennya\<close>
  "cmd_dni_narodzhennya = [1076, 1085, 1110, 32, 1085, 1072, 1088, 1086, 1076, 1078, 1077, 1085, 1085, 1103]"

definition cmd_dodaty_notatku :: pystr where
  \<comment> \<open>dodaty notatku\<close>
  "cmd_dodaty_notatku = [1076, 1086, 1076, 1072, 1090, 1080, 32, 1085, 1086, 1090, 1072, 1090, 1082, 1091]"

definition cmd_znaity_notatku :: pystr where
  \<comment> \<open>znaity notatku\<close>
  "cmd_znaity_notatku = [1079, 1085, 1072, 1081, 1090, 1080, 32, 1085, 1086, 1090, 1072, 1090, 1082, 1091]"

definition cmd_vydalyty_notatku :: pystr where
  \<comment> \<open>vydalyty notatku\<close>
  "cmd_vydalyty_notatku = [1074, 1080, 1076, 1072, 1083, 1080, 1090, 1080, 32, 1085, 1086, 1090, 1072, 1090, 1082, 1091]"

definition cmd_vyity :: pystr where
  \<comment> \<open>vyity\<close>
  "cmd_vyity = [1074, 1080, 1081, 1090, 1080]"

definition cmd_vidmina :: pystr where
  \<comment> \<open>vidmina\<close>
  "cmd_vidmina = [1074, 1110, 1076, 1084, 1110, 1085, 1072]"

definition cmd_pokazaty_vsi_kontakty :: pystr where
  \<comment> \<open>pokazaty vsi kontakty\<close>
  "cmd_pokazaty_vsi_kontakty = [1087, 1086, 1082, 1072, 1079, 1072, 1090, 1080, 32, 1074, 1089, 1110, 32, 1082, 1086, 1085, 1090, 1072, 1082, 1090, 1080]"

definition keywords_dodaty_kontakt :: "pystr list" where
  "keywords_dodaty_kontakt =
     [[1076, 1086, 1076, 1072, 1090, 1080, 32, 1082, 1086, 1085, 1090, 1072, 1082, 1090],
      [1089, 1090, 1074, 1086, 1088, 1080, 1090, 1080, 32, 1082, 1086, 1085, 1090, 1072, 1082, 1090],
      [1085, 1086, 1074, 1080, 1081, 32, 1082, 1086, 1085, 1090, 1072, 1082, 1090],
      [1074, 1074, 1077, 1089, 1090, 1080, 32, 1082, 1086, 1085, 1090, 1072, 1082, 1090],
      [1079, 1072, 1087, 1080, 1089, 1072, 1090, 1080, 32, 1082, 1086, 1085, 1090, 1072, 1082, 1090],
      [1076, 1086, 1073, 1072, 1074, 1080, 1090, 1080, 32, 1082, 1086, 1085, 1090, 1072, 1082, 1090],
      [1076, 1086, 1076, 1072, 1090, 1080, 32, 1082, 1086, 1088, 1080, 1089, 1090, 1091, 1074, 1072, 1095, 1072],
      [1076, 1086, 1073, 1072, 1074, 1080, 1090, 1080, 32, 1082, 1086, 1088, 1080, 1089, 1090, 1091, 1074, 1072, 1095, 1072],
      [1074, 1074, 1077, 1089, 1090, 1080, 32, 1082, 1086, 1088, 1080, 1089, 1090, 1091, 1074, 1072, 1095, 1072],
      [1085, 1086, 1074, 1080, 1081, 32, 1082, 1086, 1088, 1080, 1089, 1090, 1091, 1074, 1072, 1095],
      [1074, 1074, 1077, 1079, 1090, 1080, 32, 1082, 1086, 1085, 1090, 1072, 1082, 1090],
      [1074, 1074, 1077, 1076, 32, 1082, 1086, 1085, 1090, 1072, 1082, 1090],
      [1082, 1086, 1085, 1090, 1072, 1082, 1090, 32, 1085, 1086, 1074, 1080, 1081],
      [1082, 1086, 1088, 1080, 1089, 1090, 32, 1085, 1086, 1074, 1080, 1081],
      [1082, 1086, 1088, 1080, 1089, 1090, 1091, 1074, 1072, 1095, 1072, 32, 1085, 1086, 1074, 1080, 1081],
      [1082, 1086, 1085, 1090, 1072, 1082, 1090, 32, 1082, 1086, 1088, 1080, 1089, 1090, 1091, 1074, 1072, 1095, 1072],
      [1085, 1086, 1074, 1080, 1081, 32, 1079, 1072, 1087, 1080, 1089, 32, 1082, 1086, 1088, 1080, 1089, 1090, 1091, 1074, 1072, 1095, 1072]]"

definition keywords_znaity_kontakt :: "pystr list" where
  "keywords_znaity_kontakt =
     [[1079, 1085, 1072, 1081, 1090, 1080, 32, 1082, 1086, 1085, 1090, 1072, 1082, 1090],
      [1087, 1086, 1096, 1091, 1082, 32, 1082, 1086, 1085, 1090, 1072, 1082, 1090],
      [1096, 1091, 1082, 1072, 1090, 1080, 32, 1082, 1086, 1085, 1090, 1072, 1082, 1090],
      [1074, 1110, 1076, 1096, 1091, 1082, 1072, 1090, 1080, 32, 1082, 1086, 1085, 1090, 1072, 1082, 1090],
      [1079, 1085, 1072, 1081, 1090, 1080, 32, 1082, 1086, 1088, 1080, 1089, 1090, 1091, 1074, 1072, 1095, 1072],
      [1087, 1086, 1096, 1091, 1082, 32, 1082, 1086, 1088, 1080, 1089, 1090, 1091, 1074, 1072, 1095, 1072],
      [1096, 1091, 1082, 1072, 1090, 1080, 32, 1082, 1086, 1088, 1080, 1089, 1090, 1091, 1074, 1072, 1095, 1072],
      [1074, 1110, 1076, 1096, 1091, 1082, 1072, 1090, 1080, 32, 1082, 1086, 1088, 1080, 1089, 1090, 1091, 1074, 1072, 1095, 1072],
      [1087, 1086, 1096, 1091, 1082, 1072, 1090, 1080, 32, 1082, 1086, 1085, 1090, 1072, 1082, 1090],
      [1087, 1086, 1096, 1091, 1082, 1072, 1090, 1080, 32, 1082, 1086, 1088, 1080, 1089, 1090, 1091, 1074, 1072, 1095, 1072],
      [1087, 1086, 1096, 1091, 1082, 32, 1082, 1086, 1085, 1090, 1072, 1082, 1090, 1110, 1074],
      [1074, 1110, 1076, 1096, 1091, 1082, 1072, 1090, 1080, 32, 1082, 1086, 1085, 1090, 1072, 1082, 1090, 1080],
      [1087, 1086, 1096, 1091, 1082, 32, 1082, 1086, 1088, 1080, 1089, 1090, 1091, 1074, 1072, 1095, 1110, 1074],
      [1074, 1110, 1076, 1096, 1091, 1082, 1072, 1090, 1080, 32, 1082, 1086, 1088, 1080, 1089, 1090, 1091, 1074, 1072, 1095, 1110, 1074]]"

definition keywords_vydalyty_kontakt :: "pystr list" where
  "keywords_vydalyty_kontakt =
     [[1074, 1080, 1076, 1072, 1083, 1080, 1090, 1080, 32, 1082, 1086, 1085, 1090, 1072, 1082, 1090],
      [1079, 1085, 1080, 1097, 1080, 1090, 1080, 32, 1082, 1086, 1085, 1090, 1072, 1082, 1090],
      [1089, 1090, 1077, 1088, 1090, 1080, 32, 1082, 1086, 1085, 1090, 1072, 1082, 1090],
      [1074, 1080, 1083, 1091, 1095, 1080, 1090, 1080, 32, 1082, 1086, 1085, 1090, 1072, 1082, 1090],
      [1074, 1080, 1076, 1072, 1083, 1080, 1090, 1080, 32, 1082, 1086, 1088, 1080, 1089, 1090, 1091, 1074, 1072, 1095, 1072],
      [1079, 1085, 1080, 1097, 1080, 1090, 1080, 32, 1082, 1086, 1088, 1080, 1089, 1090, 1091, 1074, 1072, 1095, 1072],
      [1089, 1090, 1077, 1088, 1090, 1080, 32, 1082, 1086, 1088, 1080, 1089, 1090, 1091, 1074, 1072, 1095, 1072],
      [1074, 1080, 1083, 1091, 1095, 1080, 1090, 1080, 32, 1082, 1086, 1088, 1080, 1089, 1090, 1091, 1074, 1072, 1095, 1072],
      [1074, 1080, 1076, 1072, 1083, 1080, 1090, 1080, 32, 1079, 1072, 1087, 1080, 1089],
      [1089, 1090, 1077, 1088, 1090, 1080, 32, 1079, 1072, 1087, 1080, 1089],
      [1074, 1080, 1076, 1072, 1083, 1077, 1085, 1085, 1103, 32, 1082, 1086, 1085, 1090, 1072, 1082, 1090, 1091],
      [1089, 1090, 1077, 1088, 1090, 1080, 32, 1082, 1086, 1085, 1090, 1072, 1082, 1090, 1080],
      [1074, 1080, 1076, 1072, 1083, 1077, 1085, 1085, 1103, 32, 1079, 1072, 1087, 1080, 1089, 1110, 1074],
      [1089, 1090, 1077, 1088, 1090, 1080, 32, 1079, 1072, 1087, 1080, 1089, 1080],
      [1074, 1080, 1083, 1091, 1095, 1080, 1090, 1080, 32, 1082, 1086, 1085, 1090, 1072, 1082, 1090, 1080],
      [1079, 1085, 1080, 1097, 1080, 1090, 1080, 32, 1079, 1072, 1087, 1080, 1089, 1080]]"

definition keywords_redahuvaty_kontakt :: "pystr list" where
  "keywords_redahuvaty_kontakt =
     [[1088, 1077, 1076, 1072, 1075, 1091, 1074, 1072, 1090, 1080, 32, 1082, 1086, 1085, 1090, 1072, 1082, 1090],
      [1079, 1084, 1110, 1085, 1080, 1090, 1080, 32, 1082, 1086, 1085, 1090, 1072, 1082, 1090],
      [1088, 1077, 1076, 1072, 1075, 1091, 1074, 1072, 1085, 1085, 1103, 32, 1082, 1086, 1085, 1090, 1072, 1082, 1090, 1091],
      [1088, 1077, 1076, 1072, 1082, 1090, 1080, 1088, 1086, 1074, 1072, 1090, 1100, 32, 1082, 1086, 1085, 1090, 1072, 1082, 1090],
      [1079, 1084, 1110, 1085, 1080, 1090, 1080, 32, 1079, 1072, 1087, 1080, 1089],
      [1079, 1084, 1110, 1085, 1080, 1090, 1080, 32, 1110, 1084, 39, 1103],
      [1079, 1084, 1110, 1085, 1080, 1090, 1080, 32, 1085, 1086, 1084, 1077, 1088],
      [1079, 1084, 1110, 1085, 1080, 1090, 1080, 32, 101, 109, 97, 105, 108],
      [1079, 1084, 1110, 1085, 1080, 1090, 1080, 32, 1072, 1076, 1088, 1077, 1089, 1091],
      [1088, 1077, 1076, 1072, 1075, 1091, 1074, 1072, 1090, 1080, 32, 1085, 1086, 1084, 1077, 1088],
      [1088, 1077, 1076, 1072, 1075, 1091, 1074, 1072, 1090, 1080, 32, 1110, 1084, 39, 1103],
      [1088, 1077, 1076, 1072, 1075, 1091, 1074, 1072, 1090, 1080, 32, 101, 109, 97, 105, 108],
      [1088, 1077, 1076, 1072, 1075, 1091, 1074, 1072, 1090, 1080, 32, 1072, 1076, 1088, 1077, 1089, 1091],
      [1088, 1077, 1076, 1072, 1082, 1090, 1080, 1088, 1086, 1074, 1072, 1085, 1080, 1077, 32, 1082, 1086, 1085, 1090, 1072, 1082, 1090, 1072]]"

definition keywords_redahuvaty_notatku :: "pystr list" where
  "keywords_redahuvaty_notatku =
     [[1088, 1077, 1076, 1072, 1075, 1091, 1074, 1072, 1090, 1080, 32, 1085, 1086, 1090, 1072, 1090, 1082, 1091],
      [1079, 1084, 1110, 1085, 1080, 1090, 1080, 32, 1085, 1086, 1090, 1072, 1090, 1082, 1091],
      [1088, 1077, 1076, 1072, 1075, 1091, 1074, 1072, 1085, 1085, 1103, 32, 1085, 1086, 1090, 1072, 1090, 1082, 1080],
      [1088, 1077, 1076, 1072, 1082, 1090, 1080, 1088, 1086, 1074, 1072, 1090, 1100, 32, 1085, 1086, 1090, 1072, 1090, 1082, 1091],
      [1079, 1084, 1110, 1085, 1080, 1090, 1080, 32, 1090, 1077, 1082, 1089, 1090],
      [1079, 1084, 1110, 1085, 1080, 1090, 1080, 32, 1090, 1077, 1075, 1080],
      [1088, 1077, 1076, 1072, 1075, 1091, 1074, 1072, 1090, 1080, 32, 1090, 1077, 1082, 1089, 1090],
      [1088, 1077, 1076, 1072, 1075, 1091, 1074, 1072, 1090, 1080, 32, 1090, 1077, 1075, 1080],
      [1088, 1077, 1076, 1072, 1075, 1091, 1074, 1072, 1085, 1085, 1103, 32, 1090, 1077, 1082, 1089, 1090, 1091],
      [1088, 1077, 1076, 1072, 1075, 1091, 1074, 1072, 1085, 1085, 1103, 32, 1090, 1077, 1075, 1110, 1074],
      [1079, 1084, 1110, 1085, 1080, 1090, 1080, 32, 1079, 1072, 1087, 1080, 1089, 32, 1085, 1086, 1090, 1072, 1090, 1082, 1080]]"

definition keywords_dni_narodzhennya :: "pystr list" where
  "keywords_dni_narodzhennya =
     [[1076, 1085, 1110, 32, 1085, 1072, 1088, 1086, 1076, 1078, 1077, 1085, 1085, 1103],
      [1087, 1086, 1082, 1072, 1079, 1072, 1090, 1080, 32, 1076, 1085, 1110, 32, 1085, 1072, 1088, 1086, 1076, 1078, 1077, 1085, 1085, 1103],
      [1079, 1085, 1072, 1081, 1090, 1080, 32, 1076, 1085, 1110, 32, 1085, 1072, 1088, 1086, 1076, 1078, 1077, 1085, 1085, 1103],
      [1087, 1086, 1096, 1091, 1082, 32, 1076, 1085, 1110, 1074, 32, 1085, 1072, 1088, 1086, 1076, 1078, 1077, 1085, 1085, 1103],
      [1085, 1072, 1081, 1073, 1083, 1080, 1078, 1095, 1110, 32, 1076, 1085, 1110, 32, 1085, 1072, 1088, 1086, 1076, 1078, 1077, 1085, 1085, 1103],
      [1085, 1072, 1089, 1090, 1091, 1087, 1085, 1110, 32, 1076, 1085, 1110, 32, 1085, 1072, 1088, 1086, 1076, 1078, 1077, 1085, 1085, 1103],
      [1074, 1080, 1074, 1077, 1089, 1090, 1080, 32, 1076, 1085, 1110, 32, 1085, 1072, 1088, 1086, 1076, 1078, 1077, 1085, 1085, 1103],
      [1085, 1072, 1088, 1086, 1076, 1078, 1077, 1085, 1085, 1103, 32, 1082, 1086, 1085, 1090, 1072, 1082, 1090, 1091],
      [1085, 1072, 1081, 1073, 1083, 1080, 1078, 1095, 1110, 32, 1076, 1072, 1090, 1080, 32, 1085, 1072, 1088, 1086, 1076, 1078, 1077, 1085, 1085, 1103],
      [1085, 1072, 1081, 1073, 1083, 1080, 1078, 1095, 1110, 32, 1089, 1074, 1103, 1090, 1072],
      [1076, 1085, 1110, 32, 1085, 1072, 1088, 1086, 1076, 1078, 1077, 1085, 1085, 1103, 32, 1082, 1086, 1085, 1090, 1072, 1082, 1090, 1091],
      [1085, 1072, 1081, 1073, 1083, 1080, 1078, 1095, 1110, 32, 1087, 1086, 1076, 1110, 1111],
      [1085, 1072, 1081, 1073, 1083, 1080, 1078, 1095, 1110, 32, 1089, 1074, 1103, 1090, 1072, 32, 1082, 1086, 1085, 1090, 1072, 1082, 1090, 1091],
      [1085, 1072, 1089, 1090, 1091, 1087, 1085, 1110, 32, 1089, 1074, 1103, 1090, 1072],
      [1074, 1080, 1074, 1077, 1089, 1090, 1080, 32, 1076, 1085, 1110, 32, 1085, 1072, 1088, 1086, 1076, 1078, 1077, 1085, 1085, 1103, 32, 1082, 1086, 1085, 1090, 1072, 1082, 1090, 1091]]"

definition keywords_dodaty_notatku :: "pystr list" where
  "keywords_dodaty_notatku =
     [[1076, 1086, 1076, 1072, 1090, 1080, 32, 1085, 1086, 1090, 1072, 1090, 1082, 1091],
      [1089, 1090, 1074, 1086, 1088, 1080, 1090, 1080, 32, 1085, 1086, 1090, 1072, 1090, 1082, 1091],
      [1085, 1086, 1074, 1072, 32, 1085, 1086, 1090, 1072, 1090, 1082, 1072],
      [1074, 1074, 1077, 1089, 1090, 1080, 32, 1085, 1086, 1090, 1072, 1090, 1082, 1091],
      [1079, 1072, 1087, 1080, 1089, 1072, 1090, 1080, 32, 1085, 1086, 1090, 1072, 1090, 1082, 1091],
      [1076, 1086, 1073, 1072, 1074, 1080, 1090, 1080, 32, 1085, 1086, 1090, 1072, 1090, 1082, 1091],
      [1085, 1086, 1074, 1080, 1081, 32, 1079, 1072, 1087, 1080, 1089],
      [1074, 1074, 1077, 1089, 1090, 1080, 32, 1079, 1072, 1087, 1080, 1089],
      [1079, 1072, 1087, 1080, 1089, 1072, 1090, 1080, 32, 1079, 1072, 1087, 1080, 1089],
      [1085, 1086, 1074, 1080, 1081, 32, 1090, 1077, 1082, 1089, 1090],
      [1089, 1090, 1074, 1086, 1088, 1080, 1090, 1080, 32, 1079, 1072, 1087, 1080, 1089, 32, 1085, 1086, 1090, 1072, 1090, 1082, 1080],
      [1076, 1086, 1073, 1072, 1074, 1080, 1090, 1080, 32, 1085, 1086, 1074, 1080, 1081, 32, 1079, 1072, 1087, 1080, 1089],
      [1085, 1086, 1074, 1080, 1081, 32, 1090, 1077, 1082, 1089, 1090, 32, 1085, 1086, 1090, 1072, 1090, 1082, 1080]]"

definition keywords_znaity_notatku :: "pystr list" where
  "keywords_znaity_notatku =
     [[1079, 1085, 1072, 1081, 1090, 1080, 32, 1085, 1086, 1090, 1072, 1090, 1082, 1091],
      [1087, 1086, 1096, 1091, 1082, 32, 1085, 1086, 1090, 1072, 1090, 1082, 1080],
      [1096, 1091, 1082, 1072, 1090, 1080, 32, 1085, 1086, 1090, 1072, 1090, 1082, 1091],
      [1074, 1110, 1076, 1096, 1091, 1082, 1072, 1090, 1080, 32, 1085, 1086, 1090, 1072, 1090, 1082, 1091],
      [1079, 1085, 1072, 1081, 1090, 1080, 32, 1079, 1072, 1087, 1080, 1089],
      [1087, 1086, 1096, 1091, 1082, 32, 1079, 1072, 1087, 1080, 1089, 1091],
      [1096, 1091, 1082, 1072, 1090, 1080, 32, 1079, 1072, 1087, 1080, 1089],
      [1074, 1110, 1076, 1096, 1091, 1082, 1072, 1090, 1080, 32, 1079, 1072, 1087, 1080, 1089],
      [1087, 1086, 1096, 1091, 1082, 1072, 1090, 1080, 32, 1085, 1086, 1090, 1072, 1090, 1082, 1091],
      [1087, 1086, 1096, 1091, 1082, 1072, 1090, 1080, 32, 1079, 1072, 1087, 1080, 1089],
      [1079, 1085, 1072, 1081, 1090, 1080, 32, 1090, 1077, 1082, 1089, 1090, 32, 1085, 1086, 1090, 1072, 1090, 1082, 1080],
      [1074, 1110, 1076, 1096, 1091, 1082, 1072, 1090, 1080, 32, 1090, 1077, 1082, 1089, 1090],
      [1087, 1086, 1096, 1091, 1082, 32, 1090, 1077, 1082, 1089, 1090, 1091],
      [1087, 1086, 1096, 1091, 1082, 32, 1079, 1072, 1087, 1080, 1089, 1110, 1074],
      [1079, 1085, 1072, 1081, 1090, 1080, 32, 1079, 1072, 1087, 1080, 1089, 1080, 32, 1085, 1086, 1090, 1072, 1090, 1086, 1082]]"

definition keywords_vydalyty_notatku :: "pystr list" where
  "keywords_vydalyty_notatku =
     [[1074, 1080, 1076, 1072, 1083, 1080, 1090, 1080, 32, 1085, 1086, 1090, 1072, 1090, 1082, 1091],
      [1079, 1085, 1080, 1097, 1080, 1090, 1080, 32, 1085, 1086, 1090, 1072, 1090, 1082, 1091],
      [1089, 1090, 1077, 1088, 1090, 1080, 32, 1085, 1086, 1090, 1072, 1090, 1082, 1091],
      [1074, 1080, 1083, 1091, 1095, 1080, 1090, 1080, 32, 1085, 1086, 1090, 1072, 1090, 1082, 1091],
      [1074, 1080, 1076, 1072, 1083, 1080, 1090, 1080, 32, 1079, 1072, 1087, 1080, 1089],
      [1079, 1085, 1080, 1097, 1080, 1090, 1080, 32, 1079, 1072, 1087, 1080, 1089],
      [1089, 1090, 1077, 1088, 1090, 1080, 32, 1079, 1072, 1087, 1080, 1089],
      [1074, 1080, 1083, 1091, 1095, 1080, 1090, 1080, 32, 1079, 1072, 1087, 1080, 1089],
      [1089, 1090, 1077, 1088, 1090, 1080, 32, 1090, 1077, 1082, 1089, 1090],
      [1074, 1080, 1076, 1072, 1083, 1080, 1090, 1080, 32, 1090, 1077, 1082, 1089, 1090],
      [1074, 1080, 1076, 1072, 1083, 1080, 1090, 1080, 32, 1090, 1077, 1082, 1089, 1090, 32, 1085, 1086, 1090, 1072, 1090, 1082, 1080],
      [1089, 1090, 1077, 1088, 1090, 1080, 32, 1090, 1077, 1082, 1089, 1090, 32, 1085, 1086, 1090, 1072, 1090, 1082, 1080],
      [1074, 1080, 1083, 1091, 1095, 1080, 1090, 1080, 32, 1079, 1072, 1087, 1080, 1089, 32, 1085, 1086, 1090, 1072, 1090, 1082, 1080]]"

definition keywords_vyity :: "pystr list" where
  "keywords_vyity =
     [[1074, 1080, 1081, 1090, 1080],
      [1079, 1072, 1082, 1088, 1080, 1090, 1080],
      [1079, 1072, 1074, 1077, 1088, 1096, 1080, 1090, 1080],
      [1087, 1088, 1080, 1087, 1080, 1085, 1080, 1090, 1080],
      [1074, 1080, 1093, 1110, 1076],
      [1079, 1072, 1082, 1088, 1080, 1090, 1080, 32, 1087, 1088, 1086, 1075, 1088, 1072, 1084, 1091],
      [1074, 1080, 1093, 1086, 1076, 1080, 1090, 1080],
      [101, 120, 105, 116],
      [99, 108, 111, 115, 101],
      [1079, 1072, 1074, 1077, 1088, 1096, 1077, 1085, 1085, 1103],
      [1074, 1080, 1093, 1110, 1076, 32, 1079, 32, 1087, 1088, 1086, 1075, 1088, 1072, 1084, 1080],
      [1087, 1088, 1080, 1087, 1080, 1085, 1080, 1090, 1080, 32, 1088, 1086, 1073, 1086, 1090, 1091],
      [1079, 1072, 1074, 1077, 1088, 1096, 1080, 1090, 1080, 32, 1088, 1086, 1073, 1086, 1090, 1091],
      [1074, 1080, 1081, 1090, 1080, 32, 1079, 32, 1087, 1088, 1086, 1075, 1088, 1072, 1084, 1080],
      [1079, 1072, 1082, 1088, 1080, 1090, 1080, 32, 1074, 1089, 1077]]"

definition keywords_vidmina :: "pystr list" where
  "keywords_vidmina =
     [[1074, 1110, 1076, 1084, 1110, 1085, 1072],
      [1086, 1090, 1084, 1077, 1085, 1072],
      [99, 97, 110, 99, 101, 108],
      [1074, 1110, 1076, 1084, 1110, 1085, 1080, 1090, 1080],
      [1079, 1091, 1087, 1080, 1085, 1080, 1090, 1080],
      [1089, 1082, 1072, 1089, 1091, 1074, 1072, 1090, 1080],
      [1089, 1082, 1072, 1089, 1091, 1074, 1072, 1085, 1085, 1103],
      [1079, 1091, 1087, 1080, 1085, 1082, 1072],
      [1087, 1077, 1088, 1077, 1088, 1074, 1072, 1090, 1080],
      [1089, 1082, 1072, 1089, 1091, 1074, 1072, 1090, 1080, 32, 1086, 1087, 1077, 1088, 1072, 1094, 1110, 1102],
      [1074, 1110, 1076, 1084, 1110, 1085, 1080, 1090, 1080, 32, 1086, 1087, 1077, 1088, 1072, 1094, 1110, 1102],
      [1089, 1082, 1072, 1089, 1091, 1074, 1072, 1085, 1085, 1103, 32, 1076, 1110, 1111],
      [1074, 1110, 1076, 1084, 1110, 1085, 1072, 32, 1076, 1110, 1111],
      [1089, 1082, 1072, 1089, 1091, 1074, 1072, 1090, 1080, 32, 1074, 1074, 1077, 1076, 1077, 1085, 1085, 1103],
      [1074, 1110, 1076, 1084, 1110, 1085, 1080, 1090, 1080, 32, 1074, 1074, 1077, 1076, 1077, 1085, 1085, 1103],
      [1079, 1091, 1087, 1080, 1085, 1080, 1090, 1080, 32, 1074, 1074, 1077, 1076, 1077, 1085, 1085, 1103],
      [1087, 1077, 1088, 1077, 1088, 1074, 1072, 1090, 1080, 32, 1074, 1074, 1077, 1076, 1077, 1085, 1085, 1103]]"

definition keywords_pokazaty_vsi_kontakty :: "pystr list" where
  "keywords_pokazaty_vsi_kontakty =
     [[1087, 1086, 1082, 1072, 1079, 1072, 1090, 1080, 32, 1074, 1089, 1110, 32, 1082, 1086, 1085, 1090, 1072, 1082, 1090, 1080],
      [1074, 1089, 1110, 32, 1082, 1086, 1085, 1090, 1072, 1082, 1090, 1080],
      [1087, 1077, 1088, 1077, 1075, 1083, 1103, 1085, 1091, 1090, 1080, 32, 1074, 1089, 1110, 32, 1082, 1086, 1085, 1090, 1072, 1082, 1090, 1080],
      [1087, 1077, 1088, 1077, 1075, 1083, 1103, 1085, 1091, 1090, 1080, 32, 1082, 1086, 1085, 1090, 1072, 1082, 1090, 1080],
      [1074, 1110, 1076, 1086, 1073, 1088, 1072, 1079, 1080, 1090, 1080, 32, 1074, 1089, 1110, 32, 1082, 1086, 1085, 1090, 1072, 1082, 1090, 1080],
      [1087, 1086, 1082, 1072, 1079, 1072, 1090, 1080, 32, 1089, 1087, 1080, 1089, 1086, 1082, 32, 1082, 1086, 1085, 1090, 1072, 1082, 1090, 1110, 1074],
      [1074, 1080, 1074, 1077, 1089, 1090, 1080, 32, 1074, 1089, 1110, 32, 1082, 1086, 1085, 1090, 1072, 1082, 1090, 1080],
      [1074, 1080, 1074, 1077, 1089, 1090, 1080, 32, 1089, 1087, 1080, 1089, 1086, 1082, 32, 1082, 1086, 1085, 1090, 1072, 1082, 1090, 1110, 1074],
      [1087, 1086, 1082, 1072, 1079, 1072, 1090, 1080, 32, 1082, 1086, 1085, 1090, 1072, 1082, 1090, 1080],
      [1089, 1087, 1080, 1089, 1086, 1082, 32, 1082, 1086, 1085, 1090, 1072, 1082, 1090, 1110, 1074]]"

definition keywords_dict :: "(pystr \<times> pystr list) list" where
  "keywords_dict =
     [(cmd_dodaty_kontakt, keywords_dodaty_kontakt),
      (cmd_znaity_kontakt, keywords_znaity_kontakt),
      (cmd_vydalyty_kontakt, keywords_vydalyty_kontakt),
      (cmd_redahuvaty_kontakt, keywords_redahuvaty_kontakt),
      (cmd_redahuvaty_notatku, keywords_redahuvaty_notatku),
      (cmd_dni_narodzhennya, keywords_dni_narodzhennya),
      (cmd_dodaty_notatku, keywords_dodaty_notatku),
      (cmd_znaity_notatku, keywords_znaity_notatku),
      (cmd_vydalyty_notatku, keywords_vydalyty_notatku),
      (cmd_vyity, keywords_vyity),
      (cmd_vidmina, keywords_vidmina),
      (cmd_pokazaty_vsi_kontakty, keywords_pokazaty_vsi_kontakty)]"

text \<open>
  The two nested \<open>for\<close> loops over the dictionary and over the phrases of one command,
  with the state \<open>(best_match, highest_similarity)\<close>, started at \<open>(None, 0.0)\<close>. The
  test is \<open>similarity > highest_similarity and similarity >= 0.3\<close>.
\<close>

fun keyword_loop :: "pystr \<Rightarrow> pystr \<Rightarrow> pystr list \<Rightarrow> pystr option \<times> rat \<Rightarrow> pystr option \<times> rat" where
  "keyword_loop user_input command [] st = st"
| "keyword_loop user_input command (keyword # command_list) (best_match, highest_similarity) =
     (let similarity = similar (lower user_input) (lower keyword)
      in if highest_similarity < similarity \<and> 3 / 10 \<le> similarity
         then keyword_loop user_input command command_list (Some command, similarity)
         else keyword_loop user_input command command_list (best_match, highest_similarity))"

fun command_loop ::
  "pystr \<Rightarrow> (pystr \<times> pystr list) list \<Rightarrow> pystr option \<times> rat \<Rightarrow> pystr option \<times> rat" where
  "command_loop user_input [] st = st"
| "command_loop user_input ((command, command_list) # items) st =
     command_loop user_input items (keyword_loop user_input command command_list st)"

definition suggest_command :: "pystr \<Rightarrow> pystr option" where
  "suggest_command user_input = fst (command_loop user_input keywords_dict (None, 0))"

text \<open>
  The scorer as the resolver applies it: both strings are lower-cased by the caller and
  then compared by \<open>similar\<close> (\<open>similar(user_input.lower(), keyword.lower())\<close>).
\<close>

definition score :: "pystr \<Rightarrow> pystr \<Rightarrow> rat" where
  "score a b = similar (lower a) (lower b)"

section \<open>Field validators\<close>

text \<open>
  The field classes \<open>Name\<close>, \<open>Phone\<close>, \<open>Email\<close>, \<open>Birthday\<close> and \<open>Address\<close>. A
  constructor either raises \<open>ValueError\<close> with a message (\<open>Inl\<close> of the message) or
  builds the field, whose \<open>value\<close> is the result (\<open>Inr\<close>). The messages are the
  literals of the source, as code points.
\<close>

definition msg_name :: pystr where
  \<comment> \<open>line 45\<close>
  "msg_name =
     [1030, 1084, 39, 1103, 32, 1087, 1086, 1074, 1080, 1085, 1085, 1086, 32, 1084, 1110,
      1089, 1090, 1080, 1090, 1080, 32, 1084, 1110, 1085, 1110, 1084, 1091, 1084, 32, 50,
      32, 1083, 1110, 1090, 1077, 1088, 1080, 46]"

definition msg_phone :: pystr where
  \<comment> \<open>line 52\<close>
  "msg_phone =
     [1053, 1086, 1084, 1077, 1088, 32, 1090, 1077, 1083, 1077, 1092, 1086, 1085, 1091,
      32, 1084, 1072, 1108, 32, 1084, 1110, 1089, 1090, 1080, 1090, 1080, 32, 1088, 1110,
      1074, 1085, 1086, 32, 49, 48, 32, 1094, 1080, 1092, 1088, 46]"




definition Name :: "pystr \<Rightarrow> pystr + pystr" where
  "Name val = (if length val < 2 then Inl msg_name else Inr val)"

text \<open>
  \<open>re.match(r"^\d{10}$", value)\<close>. In a \<open>str\<close> pattern \<open>\d\<close> matches every Unicode
  decimal digit, and \<open>$\<close> matches at the end of the string and before a newline that
  ends it. \<open>decimal_ranges\<close> lists the decimal digits of Unicode 14.0 (the table of
  CPython 3.11) as pairs of a first code point and a count; later versions add blocks.
\<close>

definition decimal_ranges :: "(nat \<times> nat) list" where
  "decimal_ranges =
     [(48, 10), (1632, 10), (1776, 10), (1984, 10), (2406, 10), (2534, 10), (2662, 10),
      (2790, 10), (2918, 10), (3046, 10), (3174, 10), (3302, 10), (3430, 10), (3558, 10),
      (3664, 10), (3792, 10), (3872, 10), (4160, 10), (4240, 10), (6112, 10), (6160, 10),
      (6470, 10), (6608, 10), (6784, 10), (6800, 10), (6992, 10), (7088, 10), (7232, 10),
      (7248, 10), (42528, 10), (43216, 10), (43264, 10), (43472, 10), (43504, 10),
      (43600, 10), (44016, 10), (65296, 10), (66720, 10), (68912, 10), (69734, 10),
      (69872, 10), (69942, 10), (70096, 10), (70384, 10), (70736, 10), (70864, 10),
      (71248, 10), (71360, 10), (71472, 10), (71904, 10), (72016, 10), (72784, 10),
      (73040, 10), (73120, 10), (92768, 10), (92864, 10), (93008, 10), (120782, 50),
      (123200, 10), (123632, 10), (125264, 10), (130032, 10)]"

definition isdecimal :: "nat \<Rightarrow> bool" where
  "isdecimal c = list_ex (\<lambda>(first, n). first \<le> c \<and> c < first + n) decimal_ranges"

definition match_phone :: "pystr \<Rightarrow> bool" where
  "match_phone val \<longleftrightarrow>
     (length val = 10 \<or> (length val = 11 \<and> val ! 10 = 10)) \<and> list_all isdecimal (take 10 val)"

definition Phone :: "pystr \<Rightarrow> pystr + pystr" where
  "Phone val = (if \<not> match_phone val then Inl msg_phone else Inr val)"





section \<open>The guarded input loop: the decorator \<open>handle_user_input\<close>\<close>

text \<open>
  The console is explicit. The input is the list of the lines still to be read; each
  call of \<open>input(prompt)\<close> displays the prompt and takes the first line, and raises
  \<open>EOFError\<close> when no line is left. The output is the list of events: a prompt
  displayed by \<open>input\<close>, or a line written by \<open>print\<close>.
\<close>

datatype event = Prompt pystr | Print pystr

datatype py_error = EOFError | ValueError pystr | TypeError

datatype pyval = PyNone | PyStr pystr

text \<open>
  \<open>wrapper\<close> has three \<open>return\<close> statements. An \<open>outcome\<close> records which one ran;
  \<open>returned\<close> is the Python value the caller receives: the string \<open>'exit'\<close>, \<open>None\<close>,
  or \<open>func(user_input)\<close>.
\<close>

datatype outcome = Exited | Cancelled | Accepted pyval

fun returned :: "outcome \<Rightarrow> pyval" where
  "returned Exited = PyStr (of_ascii ''exit'')"
| "returned Cancelled = PyNone"
| "returned (Accepted v) = v"

definition msg_exit :: pystr where
  \<comment> \<open>line 17\<close>
  "msg_exit =
     [1042, 1080, 1093, 1110, 1076, 32, 1079, 32, 1087, 1086, 1090, 1086, 1095, 1085,
      1086, 1111, 32, 1076, 1110, 1111, 46, 32, 1055, 1086, 1074, 1077, 1088, 1090, 1072,
      1108, 1084, 1086, 1089, 1103, 32, 1074, 32, 1075, 1086, 1083, 1086, 1074, 1085,
      1077, 32, 1084, 1077, 1085, 1102, 46]"

definition msg_cancel :: pystr where
  \<comment> \<open>line 20\<close>
  "msg_cancel =
     [1044, 1110, 1102, 32, 1089, 1082, 1072, 1089, 1086, 1074, 1072, 1085, 1086, 46, 32,
      1055, 1086, 1074, 1077, 1088, 1090, 1072, 1108, 1084, 1086, 1089, 1103, 32, 1074,
      32, 1075, 1086, 1083, 1086, 1074, 1085, 1077, 32, 1084, 1077, 1085, 1102, 46]"

definition msg_error_prefix :: pystr where
  \<comment> \<open>line 26, the text before the reason\<close>
  "msg_error_prefix =
     [1055, 1086, 1084, 1080, 1083, 1082, 1072, 32, 1074, 1074, 1086, 1076, 1091, 58, 32]"

definition msg_error_suffix :: pystr where
  \<comment> \<open>line 27, the text after the reason\<close>
  "msg_error_suffix =
     [46, 32, 1041, 1091, 1076, 1100, 32, 1083, 1072, 1089, 1082, 1072, 44, 32, 1089,
      1087, 1088, 1086, 1073, 1091, 1081, 1090, 1077, 32, 1097, 1077, 32, 1088, 1072,
      1079, 46]"

text \<open>
  \<open>validation_class\<close> is \<open>None\<close> when the decorator is used without a class. \<open>rejects\<close>
  is the \<open>try\<close> block: the reason when the constructor raises \<open>ValueError\<close>.
\<close>

definition rejects :: "(pystr \<Rightarrow> pystr + 'v) option \<Rightarrow> pystr \<Rightarrow> pystr option" where
  "rejects validation_class user_input =
     (case validation_class of
        None \<Rightarrow> None
      | Some cls \<Rightarrow> (case cls user_input of Inl e \<Rightarrow> Some e | Inr v \<Rightarrow> None))"

fun wrapper ::
  "(pystr \<Rightarrow> pystr + 'v) option \<Rightarrow> (pystr \<Rightarrow> pyval) \<Rightarrow> pystr \<Rightarrow> pystr list
     \<Rightarrow> event list \<times> (py_error + outcome) \<times> pystr list" where
  "wrapper validation_class func prompt [] = ([Prompt prompt], Inl EOFError, [])"
| "wrapper validation_class func prompt (user_input # rest) =
     (let command = suggest_command user_input
      in if command = Some cmd_vyity
         then ([Prompt prompt, Print msg_exit], Inr Exited, rest)
         else if command = Some cmd_vidmina
         then ([Prompt prompt, Print msg_cancel], Inr Cancelled, rest)
         else case rejects validation_class user_input of
                Some e \<Rightarrow>
                  (case wrapper validation_class func prompt rest of
                     (out, res, rest') \<Rightarrow>
                       (Prompt prompt # Print (msg_error_prefix @ e @ msg_error_suffix) # out,
                        res, rest'))
              | None \<Rightarrow> ([Prompt prompt], Inr (Accepted (func user_input)), rest))"






section \<open>The callers in \<open>main\<close>: sequences of guarded inputs\<close>



















definition prompt_name :: pystr where
  \<comment> \<open>line 362\<close>
  "prompt_name =
     [1042, 1074, 1077, 1076, 1110, 1090, 1100, 32, 1110, 1084, 39, 1103, 58, 32]"

definition prompt_phone :: pystr where
  \<comment> \<open>line 365\<close>
  "prompt_phone =
     [1042, 1074, 1077, 1076, 1110, 1090, 1100, 32, 1085, 1086, 1084, 1077, 1088, 32,
      1090, 1077, 1083, 1077, 1092, 1086, 1085, 1091, 58, 32]"













section \<open>Properties of the resolver\<close>

subsection \<open>The two loops\<close>

text \<open>The best match is the one the loop started with or a key of the dictionary.\<close>

lemma keyword_loop_fst:
  "fst (keyword_loop t c l st) = fst st \<or> fst (keyword_loop t c l st) = Some c"
proof (induction l arbitrary: st)
  case Nil
  show ?case by simp
next
  case (Cons k l)
  obtain bm hs where st: "st = (bm, hs)" by (cases st) auto
  show ?case using Cons[of "(Some c, similar (lower t) (lower k))"] Cons[of "(bm, hs)"]
    by (auto simp: st Let_def)
qed

lemma command_loop_fst:
  "fst (command_loop t items st) = fst st \<or> fst (command_loop t items st) \<in> Some ` fst ` set items"
proof (induction items arbitrary: st)
  case Nil
  show ?case by simp
next
  case (Cons e items)
  obtain c l where e: "e = (c, l)" by (cases e) auto
  show ?case using Cons[of "keyword_loop t c l st"] keyword_loop_fst[of t c l st]
    by (auto simp: e)
qed

text \<open>Where no phrase reaches the threshold the state does not change.\<close>

lemma keyword_loop_below:
  "\<forall>k \<in> set l. similar (lower t) (lower k) < 3 / 10 \<Longrightarrow> keyword_loop t c l st = st"
proof (induction l arbitrary: st)
  case Nil
  show ?case by simp
next
  case (Cons k l)
  obtain bm hs where st: "st = (bm, hs)" by (cases st) auto
  from Cons show ?case by (simp add: st Let_def)
qed

lemma command_loop_below:
  "\<forall>(c, l) \<in> set items. \<forall>k \<in> set l. similar (lower t) (lower k) < 3 / 10
   \<Longrightarrow> command_loop t items st = st"
proof (induction items arbitrary: st)
  case Nil
  show ?case by simp
next
  case (Cons e items)
  obtain c l where e: "e = (c, l)" by (cases e) auto
  from Cons show ?case by (simp add: e keyword_loop_below)
qed

text \<open>Phrases that score below \<open>m\<close> leave the highest similarity below \<open>m\<close>.\<close>

lemma keyword_loop_less:
  "\<forall>k \<in> set l. similar (lower t) (lower k) < m \<Longrightarrow> snd st < m
   \<Longrightarrow> snd (keyword_loop t c l st) < m"
proof (induction l arbitrary: st)
  case Nil
  then show ?case by simp
next
  case (Cons k l)
  obtain bm hs where st: "st = (bm, hs)" by (cases st) auto
  from Cons.prems show ?case by (auto simp: st Let_def intro!: Cons.IH)
qed

lemma command_loop_less:
  "\<forall>(c, l) \<in> set items. \<forall>k \<in> set l. similar (lower t) (lower k) < m \<Longrightarrow> snd st < m
   \<Longrightarrow> snd (command_loop t items st) < m"
proof (induction items arbitrary: st)
  case Nil
  then show ?case by simp
next
  case (Cons e items)
  obtain c l where e: "e = (c, l)" by (cases e) auto
  from Cons.prems show ?case by (auto simp: e intro!: Cons.IH keyword_loop_less)
qed

text \<open>Once the highest similarity is \<open>m\<close>, phrases that score at most \<open>m\<close> change nothing.\<close>

lemma keyword_loop_keep:
  "\<forall>k \<in> set l. similar (lower t) (lower k) \<le> m \<Longrightarrow> keyword_loop t c l (bm, m) = (bm, m)"
proof (induction l)
  case Nil
  show ?case by simp
next
  case (Cons k l)
  then show ?case by (auto simp: Let_def)
qed

lemma command_loop_keep:
  "\<forall>(c, l) \<in> set items. \<forall>k \<in> set l. similar (lower t) (lower k) \<le> m
   \<Longrightarrow> command_loop t items (bm, m) = (bm, m)"
proof (induction items)
  case Nil
  show ?case by simp
next
  case (Cons e items)
  obtain c l where e: "e = (c, l)" by (cases e) auto
  from Cons show ?case by (simp add: e keyword_loop_keep)
qed

text \<open>A list with a phrase that scores \<open>m\<close>, the maximum, entered below \<open>m\<close>, ends at \<open>(Some c, m)\<close>.\<close>

lemma keyword_loop_hit:
  "\<exists>k \<in> set l. similar (lower t) (lower k) = m \<Longrightarrow> \<forall>k \<in> set l. similar (lower t) (lower k) \<le> m
   \<Longrightarrow> 3 / 10 \<le> m \<Longrightarrow> snd st < m \<Longrightarrow> keyword_loop t c l st = (Some c, m)"
proof (induction l arbitrary: st)
  case Nil
  then show ?case by simp
next
  case (Cons k l)
  obtain bm hs where st: "st = (bm, hs)" by (cases st) auto
  show ?case
  proof (cases "similar (lower t) (lower k) = m")
    case True
    with Cons.prems show ?thesis by (simp add: st Let_def keyword_loop_keep)
  next
    case False
    with Cons.prems have ex: "\<exists>k \<in> set l. similar (lower t) (lower k) = m"
      and le: "\<forall>k \<in> set l. similar (lower t) (lower k) \<le> m"
      and lt: "similar (lower t) (lower k) < m" by auto
    from Cons.prems(4) lt show ?thesis
      by (auto simp: st Let_def intro!: Cons.IH[OF ex le Cons.prems(3)])
  qed
qed

lemma command_loop_append:
  "command_loop t (xs @ ys) st = command_loop t ys (command_loop t xs st)"
proof (induction xs arbitrary: st)
  case Nil
  show ?case by simp
next
  case (Cons e xs)
  obtain c l where e: "e = (c, l)" by (cases e) auto
  show ?case by (simp add: e Cons)
qed

lemma command_loop_first_max:
  assumes "items = pre @ (c, l) # post"
    and "\<forall>(c', l') \<in> set pre. \<forall>k \<in> set l'. similar (lower t) (lower k) < m"
    and "\<exists>k \<in> set l. similar (lower t) (lower k) = m"
    and "\<forall>(c', l') \<in> set items. \<forall>k \<in> set l'. similar (lower t) (lower k) \<le> m"
    and "3 / 10 \<le> m"
  shows "command_loop t items (None, 0) = (Some c, m)"
proof -
  have "snd (command_loop t pre (None, 0)) < m"
    using assms(2,5) by (intro command_loop_less) auto
  moreover have "\<forall>k \<in> set l. similar (lower t) (lower k) \<le> m"
    using assms(1,4) by auto
  ultimately have "keyword_loop t c l (command_loop t pre (None, 0)) = (Some c, m)"
    using assms(3,5) by (intro keyword_loop_hit) auto
  moreover have "command_loop t post (Some c, m) = (Some c, m)"
    using assms(1,4) by (intro command_loop_keep) auto
  ultimately show ?thesis by (simp add: assms(1) command_loop_append)
qed

text \<open>Strings of different lengths score below 1.\<close>

lemma similar_length_neq:
  assumes "length a \<noteq> length b"
  shows "similar a b < 1"
proof -
  have "2 * matches a b < length a + length b"
    using matches_le[of a b] assms by arith
  then have "2 * (of_nat (matches a b) :: rat) < of_nat (length a + length b)"
    by (metis of_nat_less_iff of_nat_mult of_nat_numeral)
  moreover have "0 < (of_nat (length a + length b) :: rat)"
    using assms by (simp only: of_nat_0_less_iff)
  ultimately have "2 * (of_nat (matches a b) :: rat) / of_nat (length a + length b) < 1"
    by (simp only: divide_less_eq_1_pos)
  moreover have "length a + length b \<noteq> 0" using assms by auto
  ultimately show ?thesis
    by (simp only: similar_def ratio_matches calculate_ratio_def if_True simp_thms)
qed

lemma length_lower [simp]: "length (lower s) = length s"
  by (simp add: lower_def)

lemma lower_cp_idem: "lower_cp (lower_cp c) = lower_cp c"
  by (simp add: lower_cp_def)

lemma lower_idem [simp]: "lower (lower s) = lower s"
  by (simp add: lower_def lower_cp_idem)

subsection \<open>Evaluation\<close>

text \<open>
  The rewrite rules that run the scorer and the catalog on concrete strings.
\<close>

lemmas difflib_eval = similar_def ratio_matches matches_def calculate_ratio_def blocks_loop.simps
  find_longest_match_def outer_loop.simps extend_left.simps extend_right.simps b2j_def j2lenget_def
  lower_def lower_cp_def of_ascii_def Let_def

lemmas catalog_eval = keywords_dict_def keywords_dodaty_kontakt_def keywords_znaity_kontakt_def
  keywords_vydalyty_kontakt_def keywords_redahuvaty_kontakt_def keywords_redahuvaty_notatku_def
  keywords_dni_narodzhennya_def keywords_dodaty_notatku_def keywords_znaity_notatku_def
  keywords_vydalyty_notatku_def keywords_vyity_def keywords_vidmina_def
  keywords_pokazaty_vsi_kontakty_def

lemmas cmd_eval = cmd_dodaty_kontakt_def cmd_znaity_kontakt_def cmd_vydalyty_kontakt_def
  cmd_redahuvaty_kontakt_def cmd_redahuvaty_notatku_def cmd_dni_narodzhennya_def
  cmd_dodaty_notatku_def cmd_znaity_notatku_def cmd_vydalyty_notatku_def cmd_vyity_def
  cmd_vidmina_def cmd_pokazaty_vsi_kontakty_def

subsection \<open>Lines that are a phrase of a control command\<close>

text \<open>
  A line equal (after lower-casing) to a trigger phrase scores 1 against it. When no
  phrase of an earlier command has the length of the line, every earlier score is below
  1, and the command of that phrase is the result.
\<close>

lemma keywords_dict_split_vyity: "keywords_dict =
   [(cmd_dodaty_kontakt, keywords_dodaty_kontakt), (cmd_znaity_kontakt, keywords_znaity_kontakt),
    (cmd_vydalyty_kontakt, keywords_vydalyty_kontakt), (cmd_redahuvaty_kontakt, keywords_redahuvaty_kontakt),
    (cmd_redahuvaty_notatku, keywords_redahuvaty_notatku), (cmd_dni_narodzhennya, keywords_dni_narodzhennya),
    (cmd_dodaty_notatku, keywords_dodaty_notatku), (cmd_znaity_notatku, keywords_znaity_notatku),
    (cmd_vydalyty_notatku, keywords_vydalyty_notatku)]
   @ (cmd_vyity, keywords_vyity) # [(cmd_vidmina, keywords_vidmina), (cmd_pokazaty_vsi_kontakty, keywords_pokazaty_vsi_kontakty)]"
  by (simp add: keywords_dict_def)

lemma control_by_length:
  assumes "keywords_dict = pre @ (c, l) # post"
    and "\<forall>(c', l') \<in> set pre. \<forall>k \<in> set l'. length k \<noteq> length t"
    and "lower t \<in> lower ` set l"
  shows "suggest_command t = Some c"
proof -
  have "command_loop t keywords_dict (None, 0) = (Some c, 1)"
  proof (rule command_loop_first_max[OF assms(1)])
    show "\<forall>(c', l') \<in> set pre. \<forall>k \<in> set l'. similar (lower t) (lower k) < 1"
    proof clarify
      fix c' l' k
      assume "(c', l') \<in> set pre" "k \<in> set l'"
      with assms(2) have "length k \<noteq> length t" by blast
      then show "similar (lower t) (lower k) < 1"
        by (intro similar_length_neq) simp
    qed
    show "\<exists>k \<in> set l. similar (lower t) (lower k) = 1"
    proof -
      from assms(3) obtain k where "k \<in> set l" "lower t = lower k" by auto
      then show ?thesis by (auto simp: similar_self intro!: bexI[of _ k])
    qed
    show "\<forall>(c', l') \<in> set keywords_dict. \<forall>k \<in> set l'. similar (lower t) (lower k) \<le> 1"
      using similar_bounds by auto
    show "(3::rat) / 10 \<le> 1" by simp
  qed
  then show ?thesis by (simp add: suggest_command_def)
qed

lemma suggest_command_exit: "suggest_command (of_ascii ''exit'') = Some cmd_vyity"
  by (rule control_by_length[OF keywords_dict_split_vyity]) (simp_all add: catalog_eval of_ascii_def lower_def lower_cp_def)

lemma suggest_command_vyity: "suggest_command cmd_vyity = Some cmd_vyity"
  by (rule control_by_length[OF keywords_dict_split_vyity]) (simp_all add: catalog_eval cmd_vyity_def lower_def lower_cp_def)

lemma keywords_dict_split_vidmina: "keywords_dict =
   [(cmd_dodaty_kontakt, keywords_dodaty_kontakt), (cmd_znaity_kontakt, keywords_znaity_kontakt),
    (cmd_vydalyty_kontakt, keywords_vydalyty_kontakt), (cmd_redahuvaty_kontakt, keywords_redahuvaty_kontakt),
    (cmd_redahuvaty_notatku, keywords_redahuvaty_notatku), (cmd_dni_narodzhennya, keywords_dni_narodzhennya),
    (cmd_dodaty_notatku, keywords_dodaty_notatku), (cmd_znaity_notatku, keywords_znaity_notatku),
    (cmd_vydalyty_notatku, keywords_vydalyty_notatku), (cmd_vyity, keywords_vyity)]
   @ (cmd_vidmina, keywords_vidmina) # [(cmd_pokazaty_vsi_kontakty, keywords_pokazaty_vsi_kontakty)]"
  by (simp add: keywords_dict_def)

lemma suggest_command_cancel: "suggest_command (of_ascii ''cancel'') = Some cmd_vidmina"
  by (rule control_by_length[OF keywords_dict_split_vidmina])
     (simp_all add: catalog_eval of_ascii_def lower_def lower_cp_def)

lemma cmd_vyity_neq_vidmina: "cmd_vyity \<noteq> cmd_vidmina"
  by (simp add: cmd_vyity_def cmd_vidmina_def)

text \<open>Lines that no phrase matches at the threshold: digits, and two Latin words.\<close>

lemma suggest_command_12345: "suggest_command (of_ascii ''12345'') = None"
  by (simp add: suggest_command_def catalog_eval difflib_eval)

lemma suggest_command_1234567890: "suggest_command (of_ascii ''1234567890'') = None"
  by (simp add: suggest_command_def catalog_eval difflib_eval)


section \<open>Claims about the resolver\<close>

text \<open>
  C9. For every input string, \<open>suggest_command\<close> returns \<open>None\<close> or one of the twelve
  canonical commands that are the keys of the dictionary; it returns no other string.
\<close>

theorem suggest_command_range:
  "suggest_command t \<in>
     {None, Some cmd_dodaty_kontakt, Some cmd_znaity_kontakt, Some cmd_vydalyty_kontakt,
      Some cmd_redahuvaty_kontakt, Some cmd_redahuvaty_notatku, Some cmd_dni_narodzhennya,
      Some cmd_dodaty_notatku, Some cmd_znaity_notatku, Some cmd_vydalyty_notatku,
      Some cmd_vyity, Some cmd_vidmina, Some cmd_pokazaty_vsi_kontakty}"
  using command_loop_fst[of t keywords_dict "(None, 0)"]
  by (auto simp: suggest_command_def keywords_dict_def)

text \<open>
  C2. If every trigger phrase of every command scores strictly below 0.3 against the
  input, \<open>suggest_command\<close> returns \<open>None\<close>, whichever phrase is the best of them.
\<close>

theorem suggest_command_below_threshold:
  assumes "\<forall>(command, command_list) \<in> set keywords_dict. \<forall>keyword \<in> set command_list.
             score t keyword < 3 / 10"
  shows "suggest_command t = None"
  using command_loop_below[of keywords_dict t "(None, 0)"] assms
  by (simp add: suggest_command_def score_def)

text \<open>
  The line \<open>xyz123\<close>: its best phrase is \<open>exit\<close>, with the score 0.2, and the result
  is \<open>None\<close>.
\<close>

lemma xyz123_scores:
  "\<forall>(command, command_list) \<in> set keywords_dict. \<forall>keyword \<in> set command_list.
     score (of_ascii ''xyz123'') keyword < 3 / 10"
  by (simp add: score_def catalog_eval difflib_eval)

lemma xyz123_exit: "score (of_ascii ''xyz123'') (of_ascii ''exit'') = 1 / 5"
  by (simp add: score_def difflib_eval)

theorem suggest_command_below_threshold_witness:
  "list_all (\<lambda>(command, command_list).
       list_all (\<lambda>keyword. score (of_ascii ''xyz123'') keyword < 3 / 10) command_list) keywords_dict
   \<and> score (of_ascii ''xyz123'') (of_ascii ''exit'') = 1 / 5
   \<and> suggest_command (of_ascii ''xyz123'') = None"
proof -
  have "list_all (\<lambda>(command, command_list).
       list_all (\<lambda>keyword. score (of_ascii ''xyz123'') keyword < 3 / 10) command_list) keywords_dict"
    using xyz123_scores by (simp only: list_all_iff case_prod_beta)
  with suggest_command_below_threshold[OF xyz123_scores] xyz123_exit show ?thesis by blast
qed

text \<open>
  C3. The result is the first command, in the order of the dictionary, with a phrase that
  reaches the maximum score \<open>m\<close> of the whole catalog, provided \<open>m\<close> is at least 0.3:
  the commands before it (\<open>pre\<close>) score strictly below \<open>m\<close>, no phrase scores above
  \<open>m\<close>, and the commands after it (\<open>post\<close>) may reach \<open>m\<close> as well without
  displacing it.
\<close>

theorem suggest_command_first_maximum:
  assumes "keywords_dict = pre @ (command, command_list) # post"
    and "\<forall>(c, l) \<in> set pre. \<forall>keyword \<in> set l. score t keyword < m"
    and "\<exists>keyword \<in> set command_list. score t keyword = m"
    and "\<forall>(c, l) \<in> set keywords_dict. \<forall>keyword \<in> set l. score t keyword \<le> m"
    and "3 / 10 \<le> m"
  shows "suggest_command t = Some command"
  using command_loop_first_max[of keywords_dict pre command command_list post t m] assms
  by (simp add: suggest_command_def score_def)

text \<open>
  The phrase \<open>vydalyty zapys\<close> (delete the entry) is a trigger phrase of two commands:
  of \<open>cmd_vydalyty_kontakt\<close>, the third of the dictionary, and of
  \<open>cmd_vydalyty_notatku\<close>, the ninth. As an input it scores 1 against both, and the
  result is the third command.
\<close>

definition vydalyty_zapys :: pystr where
  "vydalyty_zapys = [1074, 1080, 1076, 1072, 1083, 1080, 1090, 1080, 32, 1079, 1072, 1087, 1080, 1089]"

lemmas vydalyty_zapys_eval =
  vydalyty_zapys_def keywords_dodaty_kontakt_def keywords_znaity_kontakt_def

lemma score_less_one:
  "(if length keyword = length t then similar (lower t) (lower keyword) < 1 else True)
   \<Longrightarrow> score t keyword < 1"
  by (auto simp: score_def split: if_splits intro: similar_length_neq)

lemma vydalyty_zapys_before:
  "\<forall>(c, l) \<in> set [(cmd_dodaty_kontakt, keywords_dodaty_kontakt),
                   (cmd_znaity_kontakt, keywords_znaity_kontakt)].
     \<forall>keyword \<in> set l. score vydalyty_zapys keyword < 1"
proof -
  have "list_all (\<lambda>keyword. if length keyword = length vydalyty_zapys
            then similar (lower vydalyty_zapys) (lower keyword) < 1 else True)
          (keywords_dodaty_kontakt @ keywords_znaity_kontakt)"
    by (simp add: vydalyty_zapys_eval difflib_eval)
  then show ?thesis
    by (auto simp: list_all_iff intro!: score_less_one)
qed

lemma vydalyty_zapys_phrase:
  "vydalyty_zapys \<in> set keywords_vydalyty_kontakt" "vydalyty_zapys \<in> set keywords_vydalyty_notatku"
  by (simp_all add: vydalyty_zapys_def keywords_vydalyty_kontakt_def keywords_vydalyty_notatku_def)

lemma score_bounds: "0 \<le> score a b \<and> score a b \<le> 1"
  by (simp add: score_def similar_bounds)

theorem suggest_command_first_maximum_witness:
  "keywords_dict =
     [(cmd_dodaty_kontakt, keywords_dodaty_kontakt), (cmd_znaity_kontakt, keywords_znaity_kontakt)]
     @ (cmd_vydalyty_kontakt, keywords_vydalyty_kontakt)
     # [(cmd_redahuvaty_kontakt, keywords_redahuvaty_kontakt),
        (cmd_redahuvaty_notatku, keywords_redahuvaty_notatku),
        (cmd_dni_narodzhennya, keywords_dni_narodzhennya),
        (cmd_dodaty_notatku, keywords_dodaty_notatku),
        (cmd_znaity_notatku, keywords_znaity_notatku),
        (cmd_vydalyty_notatku, keywords_vydalyty_notatku),
        (cmd_vyity, keywords_vyity), (cmd_vidmina, keywords_vidmina),
        (cmd_pokazaty_vsi_kontakty, keywords_pokazaty_vsi_kontakty)]
   \<and> list_all (\<lambda>(c, l). list_all (\<lambda>keyword. score vydalyty_zapys keyword < 1) l)
        [(cmd_dodaty_kontakt, keywords_dodaty_kontakt), (cmd_znaity_kontakt, keywords_znaity_kontakt)]
   \<and> (\<exists>keyword \<in> set keywords_vydalyty_kontakt. score vydalyty_zapys keyword = 1)
   \<and> (\<exists>keyword \<in> set keywords_vydalyty_notatku. score vydalyty_zapys keyword = 1)
   \<and> list_all (\<lambda>(c, l). list_all (\<lambda>keyword. score vydalyty_zapys keyword \<le> 1) l) keywords_dict
   \<and> (3::rat) / 10 \<le> 1
   \<and> suggest_command vydalyty_zapys = Some cmd_vydalyty_kontakt"
proof -
  have split: "keywords_dict =
     [(cmd_dodaty_kontakt, keywords_dodaty_kontakt), (cmd_znaity_kontakt, keywords_znaity_kontakt)]
     @ (cmd_vydalyty_kontakt, keywords_vydalyty_kontakt)
     # [(cmd_redahuvaty_kontakt, keywords_redahuvaty_kontakt),
        (cmd_redahuvaty_notatku, keywords_redahuvaty_notatku),
        (cmd_dni_narodzhennya, keywords_dni_narodzhennya),
        (cmd_dodaty_notatku, keywords_dodaty_notatku),
        (cmd_znaity_notatku, keywords_znaity_notatku),
        (cmd_vydalyty_notatku, keywords_vydalyty_notatku),
        (cmd_vyity, keywords_vyity), (cmd_vidmina, keywords_vidmina),
        (cmd_pokazaty_vsi_kontakty, keywords_pokazaty_vsi_kontakty)]"
    by (simp add: keywords_dict_def)
  have self: "score vydalyty_zapys vydalyty_zapys = 1"
    by (simp add: score_def similar_self)
  have hit: "\<exists>keyword \<in> set keywords_vydalyty_kontakt. score vydalyty_zapys keyword = 1"
    using vydalyty_zapys_phrase(1) self by blast
  have tie: "\<exists>keyword \<in> set keywords_vydalyty_notatku. score vydalyty_zapys keyword = 1"
    using vydalyty_zapys_phrase(2) self by blast
  have le: "\<forall>(c, l) \<in> set keywords_dict. \<forall>keyword \<in> set l. score vydalyty_zapys keyword \<le> 1"
    using score_bounds by blast
  have thr: "(3::rat) / 10 \<le> 1" by simp
  have before': "list_all (\<lambda>(c, l). list_all (\<lambda>keyword. score vydalyty_zapys keyword < 1) l)
        [(cmd_dodaty_kontakt, keywords_dodaty_kontakt), (cmd_znaity_kontakt, keywords_znaity_kontakt)]"
    using vydalyty_zapys_before by (simp only: list_all_iff case_prod_beta)
  have le': "list_all (\<lambda>(c, l). list_all (\<lambda>keyword. score vydalyty_zapys keyword \<le> 1) l) keywords_dict"
    using le by (simp only: list_all_iff case_prod_beta)
  from suggest_command_first_maximum[OF split vydalyty_zapys_before hit le thr]
  show ?thesis using split before' hit tie le' thr by blast
qed

section \<open>Claims about the guarded input loop\<close>

text \<open>The four ways through one iteration of the loop.\<close>

lemma wrapper_exit:
  "suggest_command user_input = Some cmd_vyity
   \<Longrightarrow> wrapper validation_class func prompt (user_input # rest)
       = ([Prompt prompt, Print msg_exit], Inr Exited, rest)"
  by simp

lemma wrapper_cancel:
  "suggest_command user_input = Some cmd_vidmina
   \<Longrightarrow> wrapper validation_class func prompt (user_input # rest)
       = ([Prompt prompt, Print msg_cancel], Inr Cancelled, rest)"
  using cmd_vyity_neq_vidmina by simp

lemma wrapper_reject:
  "suggest_command user_input \<noteq> Some cmd_vyity \<Longrightarrow> suggest_command user_input \<noteq> Some cmd_vidmina
   \<Longrightarrow> rejects validation_class user_input = Some e
   \<Longrightarrow> wrapper validation_class func prompt (user_input # rest)
       = (case wrapper validation_class func prompt rest of
            (out, res, rest') \<Rightarrow>
              (Prompt prompt # Print (msg_error_prefix @ e @ msg_error_suffix) # out, res, rest'))"
  by simp

lemma wrapper_accept:
  "suggest_command user_input \<noteq> Some cmd_vyity \<Longrightarrow> suggest_command user_input \<noteq> Some cmd_vidmina
   \<Longrightarrow> rejects validation_class user_input = None
   \<Longrightarrow> wrapper validation_class func prompt (user_input # rest)
       = ([Prompt prompt], Inr (Accepted (func user_input)), rest)"
  by simp

declare wrapper.simps(2) [simp del]

text \<open>
  C1. A line that the resolver maps to the exit command makes the loop return
  \<open>Exited\<close> at once, and a line mapped to the cancel command \<open>Cancelled\<close>: the
  result is the same for every validation class and every decorated function, so no
  validator is applied and no value is produced, whatever else the line matches.
\<close>

theorem wrapper_control_intent_first:
  "(suggest_command user_input = Some cmd_vyity \<longrightarrow>
      wrapper validation_class func prompt (user_input # rest)
        = ([Prompt prompt, Print msg_exit], Inr Exited, rest))
   \<and> (suggest_command user_input = Some cmd_vidmina \<longrightarrow>
      wrapper validation_class func prompt (user_input # rest)
        = ([Prompt prompt, Print msg_cancel], Inr Cancelled, rest))"
  by (simp add: wrapper_exit wrapper_cancel)

text \<open>
  The line \<open>vyity\<close> (a name the validator \<open>Name\<close> accepts) also scores 6/19, above
  0.3, against the domain phrase \<open>znaity kontakt\<close>; the loop returns \<open>Exited\<close> and the
  next line is left unread.
\<close>

lemma vyity_domain_score: "score cmd_vyity cmd_znaity_kontakt = 6 / 19"
  by (simp add: score_def cmd_vyity_def cmd_znaity_kontakt_def difflib_eval)

lemma cmd_znaity_kontakt_phrase: "cmd_znaity_kontakt \<in> set keywords_znaity_kontakt"
  by (simp add: cmd_znaity_kontakt_def keywords_znaity_kontakt_def)

theorem wrapper_control_intent_first_witness:
  "suggest_command cmd_vyity = Some cmd_vyity
   \<and> cmd_znaity_kontakt \<in> set keywords_znaity_kontakt
   \<and> 3 / 10 \<le> score cmd_vyity cmd_znaity_kontakt
   \<and> Name cmd_vyity = Inr cmd_vyity
   \<and> wrapper (Some Name) (\<lambda>user_input. PyStr user_input) prompt_name [cmd_vyity, of_ascii ''Bob'']
        = ([Prompt prompt_name, Print msg_exit], Inr Exited, [of_ascii ''Bob''])
   \<and> suggest_command (of_ascii ''cancel'') = Some cmd_vidmina
   \<and> Name (of_ascii ''cancel'') = Inr (of_ascii ''cancel'')
   \<and> wrapper (Some Name) (\<lambda>user_input. PyStr user_input) prompt_name [of_ascii ''cancel'']
        = ([Prompt prompt_name, Print msg_cancel], Inr Cancelled, [])"
proof -
  have n1: "Name cmd_vyity = Inr cmd_vyity" by (simp add: Name_def cmd_vyity_def)
  have n2: "Name (of_ascii ''cancel'') = Inr (of_ascii ''cancel'')" by (simp add: Name_def of_ascii_def)
  have d: "3 / 10 \<le> score cmd_vyity cmd_znaity_kontakt" by (simp add: vyity_domain_score)
  from wrapper_control_intent_first[of cmd_vyity "Some Name" "\<lambda>user_input. PyStr user_input"
          prompt_name "[of_ascii ''Bob'']"]
       wrapper_control_intent_first[of "of_ascii ''cancel''" "Some Name" "\<lambda>user_input. PyStr user_input"
          prompt_name "[]"]
       suggest_command_vyity suggest_command_cancel n1 n2 d cmd_znaity_kontakt_phrase
  show ?thesis by blast
qed

text \<open>The accepting \<open>return\<close> is reached only by a line that passed both control tests.\<close>

lemma wrapper_accepted_line:
  "wrapper validation_class func prompt inp = (out, Inr (Accepted v), rest)
   \<Longrightarrow> \<exists>user_input. v = func user_input \<and> suggest_command user_input \<noteq> Some cmd_vyity
         \<and> suggest_command user_input \<noteq> Some cmd_vidmina
         \<and> rejects validation_class user_input = None"
proof (induction inp arbitrary: out)
  case Nil
  then show ?case by simp
next
  case (Cons user_input inp)
  show ?case
  proof (cases "suggest_command user_input = Some cmd_vyity")
    case True
    with Cons.prems show ?thesis by (simp add: wrapper_exit)
  next
    case nx: False
    show ?thesis
    proof (cases "suggest_command user_input = Some cmd_vidmina")
      case True
      with Cons.prems show ?thesis by (simp add: wrapper_cancel)
    next
      case nc: False
      show ?thesis
      proof (cases "rejects validation_class user_input")
        case None
        with Cons.prems nx nc show ?thesis by (auto simp: wrapper_accept)
      next
        case (Some e)
        obtain out' res rest' where w: "wrapper validation_class func prompt inp = (out', res, rest')"
          by (cases "wrapper validation_class func prompt inp") auto
        with Cons.prems nx nc Some have "res = Inr (Accepted v)" "rest' = rest"
          by (auto simp: wrapper_reject)
        with w Cons.IH[of out'] show ?thesis by simp
      qed
    qed
  qed
qed

text \<open>
  C10. Whenever a getter returns an accepted value, that value is a line the resolver
  maps neither to the exit nor to the cancel command. The line \<open>exit\<close> is mapped to
  the exit command, so the accepted value is never the string \<open>'exit'\<close>, and the value
  the caller receives differs from the one it receives for \<open>Exited\<close> and for
  \<open>Cancelled\<close>.
\<close>

theorem wrapper_accepted_not_control:
  assumes "wrapper validation_class (\<lambda>user_input. PyStr user_input) prompt inp
             = (out, Inr (Accepted v), rest)"
  shows "\<exists>u. v = PyStr u \<and> suggest_command u \<noteq> Some cmd_vyity \<and> suggest_command u \<noteq> Some cmd_vidmina
           \<and> suggest_command (of_ascii ''exit'') = Some cmd_vyity
           \<and> u \<noteq> of_ascii ''exit''
           \<and> returned (Accepted v) \<noteq> returned Exited
           \<and> returned (Accepted v) \<noteq> returned Cancelled"
proof -
  from wrapper_accepted_line[OF assms] obtain u where u: "v = PyStr u"
    "suggest_command u \<noteq> Some cmd_vyity" "suggest_command u \<noteq> Some cmd_vidmina" by auto
  from u(2) suggest_command_exit have "u \<noteq> of_ascii ''exit''" by auto
  with u suggest_command_exit show ?thesis by auto
qed

lemma Phone_1234567890: "Phone (of_ascii ''1234567890'') = Inr (of_ascii ''1234567890'')"
  by (simp add: Phone_def match_phone_def of_ascii_def isdecimal_def decimal_ranges_def)

lemma Phone_12345: "Phone (of_ascii ''12345'') = Inl msg_phone"
  by (simp add: Phone_def match_phone_def of_ascii_def)

lemma get_phone_1234567890:
  "wrapper (Some Phone) (\<lambda>user_input. PyStr user_input) prompt (of_ascii ''1234567890'' # rest)
     = ([Prompt prompt], Inr (Accepted (PyStr (of_ascii ''1234567890''))), rest)"
  by (simp add: wrapper_accept suggest_command_1234567890 rejects_def Phone_1234567890)

theorem wrapper_accepted_not_control_witness:
  "wrapper (Some Phone) (\<lambda>user_input. PyStr user_input) prompt_phone [of_ascii ''1234567890'']
     = ([Prompt prompt_phone], Inr (Accepted (PyStr (of_ascii ''1234567890''))), [])
   \<and> (\<exists>u. PyStr (of_ascii ''1234567890'') = PyStr u
          \<and> suggest_command u \<noteq> Some cmd_vyity \<and> suggest_command u \<noteq> Some cmd_vidmina
          \<and> suggest_command (of_ascii ''exit'') = Some cmd_vyity
          \<and> u \<noteq> of_ascii ''exit''
          \<and> returned (Accepted (PyStr (of_ascii ''1234567890''))) \<noteq> returned Exited
          \<and> returned (Accepted (PyStr (of_ascii ''1234567890''))) \<noteq> returned Cancelled)"
  using wrapper_accepted_not_control[OF get_phone_1234567890[of prompt_phone "[]"]]
    get_phone_1234567890[of prompt_phone "[]"] by (rule conjI[rotated])

text \<open>
  \<open>rejection_events\<close> is what the loop displays for a list of rejected lines: for each
  line the prompt and the message with the reason.
\<close>

definition rejection_events :: "(pystr \<Rightarrow> pystr + 'v) option \<Rightarrow> pystr \<Rightarrow> pystr list \<Rightarrow> event list" where
  "rejection_events validation_class prompt ls =
     concat (map (\<lambda>l. case rejects validation_class l of
                        None \<Rightarrow> []
                      | Some e \<Rightarrow> [Prompt prompt, Print (msg_error_prefix @ e @ msg_error_suffix)]) ls)"

lemma wrapper_first_event:
  "\<exists>out. fst (wrapper validation_class func prompt inp) = Prompt prompt # out"
proof (cases inp)
  case Nil
  then show ?thesis by simp
next
  case (Cons user_input rest)
  show ?thesis unfolding Cons
    by (cases "wrapper validation_class func prompt rest")
       (auto simp: wrapper.simps(2) Let_def split: option.splits)
qed

lemma wrapper_rejections:
  assumes "\<forall>l \<in> set ls. suggest_command l \<noteq> Some cmd_vyity \<and> suggest_command l \<noteq> Some cmd_vidmina
             \<and> rejects validation_class l \<noteq> None"
  shows "wrapper validation_class func prompt (ls @ rest)
           = (case wrapper validation_class func prompt rest of
                (out, res, rest') \<Rightarrow> (rejection_events validation_class prompt ls @ out, res, rest'))"
  using assms
proof (induction ls)
  case Nil
  show ?case by (simp add: rejection_events_def split: prod.splits)
next
  case (Cons l ls)
  then obtain e where e: "rejects validation_class l = Some e" by auto
  from Cons.prems have nx: "suggest_command l \<noteq> Some cmd_vyity" "suggest_command l \<noteq> Some cmd_vidmina"
    by auto
  from Cons have IH: "wrapper validation_class func prompt (ls @ rest)
           = (case wrapper validation_class func prompt rest of
                (out, res, rest') \<Rightarrow> (rejection_events validation_class prompt ls @ out, res, rest'))"
    by simp
  show ?case
    by (simp add: wrapper_reject[OF nx e] IH rejection_events_def e split: prod.splits)
qed

text \<open>
  C4. For every validation class and every list \<open>ls\<close> of lines that are rejected (and
  are no control command), followed by more input \<open>rest\<close>: the loop displays, for each
  line, the prompt and the reason of the rejection, and goes on with \<open>rest\<close> exactly as
  a fresh call does, which starts by displaying the same prompt; so there is no limit on
  the retries. With \<open>Phone\<close> and the lines \<open>12345\<close>, \<open>1234567890\<close> there is one
  rejection message and then the accepted value \<open>1234567890\<close>.
\<close>

theorem wrapper_rejection_retry:
  "((\<forall>l \<in> set ls. suggest_command l \<noteq> Some cmd_vyity \<and> suggest_command l \<noteq> Some cmd_vidmina
          \<and> rejects validation_class l \<noteq> None)
      \<longrightarrow> wrapper validation_class func prompt (ls @ rest)
           = (case wrapper validation_class func prompt rest of
                (out, res, rest') \<Rightarrow> (rejection_events validation_class prompt ls @ out, res, rest')))
   \<and> (\<exists>out. fst (wrapper validation_class func prompt rest) = Prompt prompt # out)
   \<and> wrapper (Some Phone) (\<lambda>user_input. PyStr user_input) prompt
        [of_ascii ''12345'', of_ascii ''1234567890'']
        = ([Prompt prompt, Print (msg_error_prefix @ msg_phone @ msg_error_suffix), Prompt prompt],
           Inr (Accepted (PyStr (of_ascii ''1234567890''))), [])"
proof -
  have "wrapper (Some Phone) (\<lambda>user_input. PyStr user_input) prompt
        [of_ascii ''12345'', of_ascii ''1234567890'']
        = ([Prompt prompt, Print (msg_error_prefix @ msg_phone @ msg_error_suffix), Prompt prompt],
           Inr (Accepted (PyStr (of_ascii ''1234567890''))), [])"
    by (simp add: wrapper_reject[where e = msg_phone] suggest_command_12345 rejects_def Phone_12345
        get_phone_1234567890)
  then show ?thesis
    using wrapper_rejections[of ls validation_class func prompt rest]
      wrapper_first_event[of validation_class func prompt rest] by blast
qed

theorem wrapper_rejection_retry_witness:
  "suggest_command (of_ascii ''12345'') \<noteq> Some cmd_vyity
   \<and> suggest_command (of_ascii ''12345'') \<noteq> Some cmd_vidmina
   \<and> rejects (Some Phone) (of_ascii ''12345'') = Some msg_phone
   \<and> rejection_events (Some Phone) prompt_phone [of_ascii ''12345'']
        = [Prompt prompt_phone, Print (msg_error_prefix @ msg_phone @ msg_error_suffix)]
   \<and> wrapper (Some Phone) (\<lambda>user_input. PyStr user_input) prompt_phone
        ([of_ascii ''12345''] @ [of_ascii ''1234567890''])
        = (rejection_events (Some Phone) prompt_phone [of_ascii ''12345''] @ [Prompt prompt_phone],
           Inr (Accepted (PyStr (of_ascii ''1234567890''))), [])"
proof -
  have h: "suggest_command (of_ascii ''12345'') \<noteq> Some cmd_vyity"
    "suggest_command (of_ascii ''12345'') \<noteq> Some cmd_vidmina"
    "rejects (Some Phone) (of_ascii ''12345'') = Some msg_phone"
    by (simp_all add: suggest_command_12345 rejects_def Phone_12345)
  have ev: "rejection_events (Some Phone) prompt_phone [of_ascii ''12345'']
        = [Prompt prompt_phone, Print (msg_error_prefix @ msg_phone @ msg_error_suffix)]"
    by (simp add: rejection_events_def rejects_def Phone_12345)
  from wrapper_rejection_retry[of "[of_ascii ''12345'']" "Some Phone" "\<lambda>user_input. PyStr user_input"
        prompt_phone "[of_ascii ''1234567890'']"] h
  have "wrapper (Some Phone) (\<lambda>user_input. PyStr user_input) prompt_phone
        ([of_ascii ''12345''] @ [of_ascii ''1234567890''])
        = (rejection_events (Some Phone) prompt_phone [of_ascii ''12345''] @ [Prompt prompt_phone],
           Inr (Accepted (PyStr (of_ascii ''1234567890''))), [])"
    by (simp add: get_phone_1234567890)
  with h ev show ?thesis by blast
qed

section \<open>Claims about the callers\<close>









section \<open>Claims about the scorer\<close>

subsection \<open>Strings without a common element\<close>





subsection \<open>Strings with a common element\<close>











subsection \<open>Symmetry\<close>







subsection \<open>Case\<close>



lemma similar_Hello_hello: "similar (of_ascii ''Hello'') (of_ascii ''hello'') = 4 / 5"
  by (simp add: difflib_eval)


subsection \<open>A string against itself\<close>

text \<open>
  C8. For every non-empty string the score against itself is exactly 1, for \<open>similar\<close>
  and for the scorer with lower-casing.
\<close>

theorem score_self:
  assumes "x \<noteq> []"
  shows "similar x x = 1 \<and> score x x = 1"
  by (simp add: score_def similar_self)

theorem score_self_witness:
  "of_ascii ''Hello'' \<noteq> []
   \<and> similar (of_ascii ''Hello'') (of_ascii ''Hello'') = 1
   \<and> score (of_ascii ''Hello'') (of_ascii ''Hello'') = 1"
proof -
  have ne: "of_ascii ''Hello'' \<noteq> []" by (simp add: of_ascii_def)
  from score_self[OF ne] ne show ?thesis by blast
qed


end
